theory Spec2Isabelle
  imports Main "HOL-Library.AList"
begin

section \<open>Data model\<close>

text \<open>
  The session state of the extension lives in the class \<open>ESExplorerProvider\<close>
  (three JavaScript \<open>Map\<close>s, the active pointer, the auto-refresh flag and timer), in
  the two stores of the extension context (\<open>globalState\<close> and \<open>secrets\<close>) and in one
  variable of the process environment. A JavaScript \<open>Map\<close> keeps insertion order, a
  \<open>set\<close> on a present key keeps the key's position, and \<open>keys()[0]\<close> is read by the
  code, so a \<open>Map\<close> is an association list: \<open>AList.update\<close> is \<open>Map.set\<close>,
  \<open>AList.delete\<close> is \<open>Map.delete\<close> and \<open>map_of\<close> is \<open>Map.get\<close>.
\<close>

record ClusterConfig =
  cid :: string
  name :: string
  deploymentType :: string
  nodeUrl :: "string option"
  cloudId :: "string option"
  authMethod :: string
  disableSSL :: "bool option"

text \<open>
  An entry of an import document, as \<open>JSON.parse\<close> delivers it: every property may be
  absent. \<open>e_id\<close> stands for an \<open>id\<close> property that a document may carry although the
  interface \<open>ClusterExportData\<close> does not declare one.
\<close>

record ClusterExportData =
  e_id :: "string option"
  e_name :: "string option"
  e_deploymentType :: "string option"
  e_nodeUrl :: "string option"
  e_cloudId :: "string option"
  e_authMethod :: "string option"
  e_disableSSL :: "bool option"

record ClusterHealth =
  status :: string
  clusterName :: string
  numberOfNodes :: nat
  numberOfDataNodes :: nat
  activePrimaryShards :: nat
  activeShards :: nat
  lastChecked :: nat

text \<open>The body of a health response of the client library; a property may be absent.\<close>

record HealthResponse =
  r_status :: "string option"
  r_cluster_name :: "string option"
  r_number_of_nodes :: "nat option"
  r_number_of_data_nodes :: "nat option"
  r_active_primary_shards :: "nat option"
  r_active_shards :: "nat option"

datatype endpoint = Cloud "string option" | Node "string option"

datatype auth = BasicAuth string string | ApiKeyAuth string

text \<open>
  The options object from which a \<open>Client\<close> is constructed. A live client handle is
  represented by the options it was built from. \<open>ssl_rejectUnauthorized = Some False\<close>
  is \<open>clientOptions.ssl = { rejectUnauthorized: false }\<close>.
\<close>

record clientOptions =
  target :: endpoint
  auth :: "auth option"
  ssl_rejectUnauthorized :: "bool option"
  tls_ca :: "string option"

datatype secret_field = Config | Username | Password | ApiKey

text \<open>
  The calls the program makes to its collaborators (client library, prompts, messages,
  the change event of the tree), in the order they are made.
\<close>

datatype event =
    Ping string clientOptions bool
  | HealthQuery string "HealthResponse option"
  | InputBox string "string option"
  | QuickPick string "string option"
  | ErrorMessage string
  | WarningMessage string
  | InformationMessage string
  | ConsoleLog string
  | TreeDataChanged

text \<open>
  The secret store is keyed by \<open>esExt.cluster.<id>.<field>\<close>; the key is kept as the
  pair of the id and the field.
\<close>

record world =
  clusters :: "(string \<times> ClusterConfig) list"
  clients :: "(string \<times> clientOptions) list"
  clusterHealth :: "(string \<times> ClusterHealth) list"
  activeClusterId :: "string option"
  autoRefreshEnabled :: bool
  refreshTimer :: bool
  gs_clusterIds :: "string list"
  gs_connectedClusters :: "string list"
  gs_autoRefreshEnabled :: bool
  gs_caCertificate :: "string option"
  secrets :: "((string \<times> secret_field) \<times> string) list"
  NODE_TLS_REJECT_UNAUTHORIZED :: "string option"
  clock :: nat
  trace :: "event list"

text \<open>
  What reading the chosen file gives. \<open>Unparseable\<close> stands for every way in which
  reading the file or \<open>JSON.parse\<close> throws, and for the document \<open>null\<close>, on which
  \<open>importData.clusters\<close> throws; \<open>NoClusterArray\<close> for a document whose \<open>clusters\<close>
  property is missing or not an array. An element of the array is \<open>None\<close> when it is
  \<open>null\<close> and otherwise the record of its properties; an element that is not an object
  has none of them.
\<close>

datatype importRead =
  NoFileChosen | Unparseable | NoClusterArray | ClusterArray "ClusterExportData option list"

text \<open>
  What the outside answers. Every answer is indexed by the logical time of the call
  (\<open>clock\<close>, advanced by every call), so that any sequence of answers can be chosen.
  \<open>ping_result\<close> is \<open>False\<close> when constructing the client or \<open>ping()\<close> throws;
  \<open>health_result\<close> is \<open>None\<close> when \<open>cluster.health()\<close> throws. \<open>JSON_stringify\<close> and
  \<open>JSON_parse\<close> are the runtime's, \<open>math_random\<close> is
  \<open>Math.random().toString(36).substr(2, 9)\<close>.
\<close>

record env =
  ping_result :: "nat \<Rightarrow> string \<Rightarrow> clientOptions \<Rightarrow> bool"
  health_result :: "nat \<Rightarrow> string \<Rightarrow> clientOptions \<Rightarrow> HealthResponse option"
  input_box :: "nat \<Rightarrow> string option"
  pick_answer :: "nat \<Rightarrow> string option"
  date_now :: "nat \<Rightarrow> nat"
  math_random :: "nat \<Rightarrow> string"
  JSON_stringify :: "ClusterConfig \<Rightarrow> string"
  JSON_parse :: "string \<Rightarrow> ClusterConfig option"
  import_read :: "nat \<Rightarrow> importRead"

section \<open>Primitives\<close>

definition emit :: "event \<Rightarrow> world \<Rightarrow> world" where
  "emit e w = w\<lparr>trace := trace w @ [e]\<rparr>"

definition tick :: "world \<Rightarrow> world" where
  "tick w = w\<lparr>clock := Suc (clock w)\<rparr>"

definition events_since :: "world \<Rightarrow> world \<Rightarrow> event list" where
  "events_since w w' = drop (length (trace w)) (trace w')"

text \<open>JavaScript truthiness of an optional string: \<open>undefined\<close> and \<open>''\<close> are falsy.\<close>

definition truthy :: "string option \<Rightarrow> bool" where
  "truthy s = (case s of None \<Rightarrow> False | Some v \<Rightarrow> v \<noteq> [])"

definition digit_char :: "nat \<Rightarrow> char" where
  "digit_char n = ''0123456789'' ! (n mod 10)"

fun show_nat :: "nat \<Rightarrow> string" where
  "show_nat n = (if n < 10 then [digit_char n] else show_nat (n div 10) @ [digit_char n])"

declare show_nat.simps [simp del]

definition showInputBox :: "env \<Rightarrow> string \<Rightarrow> world \<Rightarrow> string option \<times> world" where
  "showInputBox en prompt w =
     (let a = input_box en (clock w) in (a, tick (emit (InputBox prompt a) w)))"

text \<open>\<open>showQuickPick\<close>, and \<open>showWarningMessage\<close> when it offers buttons.\<close>

definition showQuickPick :: "env \<Rightarrow> string \<Rightarrow> world \<Rightarrow> string option \<times> world" where
  "showQuickPick en prompt w =
     (let a = pick_answer en (clock w) in (a, tick (emit (QuickPick prompt a) w)))"

definition secrets_get :: "world \<Rightarrow> string \<Rightarrow> secret_field \<Rightarrow> string option" where
  "secrets_get w i f = map_of (secrets w) (i, f)"

definition secrets_store :: "string \<Rightarrow> secret_field \<Rightarrow> string \<Rightarrow> world \<Rightarrow> world" where
  "secrets_store i f v w = w\<lparr>secrets := AList.update (i, f) v (secrets w)\<rparr>"

definition secrets_delete :: "string \<Rightarrow> secret_field \<Rightarrow> world \<Rightarrow> world" where
  "secrets_delete i f w = w\<lparr>secrets := AList.delete (i, f) (secrets w)\<rparr>"

definition refresh :: "world \<Rightarrow> world" where
  "refresh w = emit TreeDataChanged w"

definition first_key :: "(string \<times> 'v) list \<Rightarrow> string option" where
  "first_key m = (case m of [] \<Rightarrow> None | (k, _) # _ \<Rightarrow> Some k)"

section \<open>Profile store and reconnect-set\<close>

definition saveClusterConfig :: "env \<Rightarrow> ClusterConfig \<Rightarrow> world \<Rightarrow> world" where
  "saveClusterConfig en config w =
     (let w1 = secrets_store (cid config) Config (JSON_stringify en config) w in
      if cid config \<in> set (gs_clusterIds w1) then w1
      else w1\<lparr>gs_clusterIds := gs_clusterIds w1 @ [cid config]\<rparr>)"

definition addCluster :: "env \<Rightarrow> ClusterConfig \<Rightarrow> world \<Rightarrow> world" where
  "addCluster en config w =
     (let w1 = w\<lparr>clusters := AList.update (cid config) config (clusters w)\<rparr>;
          w2 = saveClusterConfig en config w1;
          w3 = (if \<not> truthy (activeClusterId w2) then w2\<lparr>activeClusterId := Some (cid config)\<rparr>
                else w2)
      in refresh w3)"

definition saveConnectedCluster :: "string \<Rightarrow> world \<Rightarrow> world" where
  "saveConnectedCluster i w =
     (if i \<in> set (gs_connectedClusters w) then w
      else w\<lparr>gs_connectedClusters := gs_connectedClusters w @ [i]\<rparr>)"

definition removeConnectedCluster :: "string \<Rightarrow> world \<Rightarrow> world" where
  "removeConnectedCluster i w =
     w\<lparr>gs_connectedClusters := filter (\<lambda>j. j \<noteq> i) (gs_connectedClusters w)\<rparr>"

definition removeCluster :: "string \<Rightarrow> world \<Rightarrow> world" where
  "removeCluster i w =
     (let w1 = w\<lparr>clusters := AList.delete i (clusters w), clients := AList.delete i (clients w)\<rparr>;
          w2 = removeConnectedCluster i w1;
          w3 = secrets_delete i ApiKey (secrets_delete i Password
                 (secrets_delete i Username (secrets_delete i Config w2)));
          w4 = (if activeClusterId w3 = Some i
                then w3\<lparr>activeClusterId := first_key (clusters w3)\<rparr> else w3)
      in refresh w4)"

definition disconnectFromCluster :: "string \<Rightarrow> world \<Rightarrow> world" where
  "disconnectFromCluster i w =
     (let w1 = w\<lparr>clients := AList.delete i (clients w)\<rparr>;
          w2 = removeConnectedCluster i w1;
          w3 = w2\<lparr>clusterHealth := AList.delete i (clusterHealth w2)\<rparr>;
          w4 = (if activeClusterId w3 = Some i then w3\<lparr>activeClusterId := None\<rparr> else w3);
          w5 = refresh w4;
          clusterName = (case map_of (clusters w5) i of Some c \<Rightarrow> name c | None \<Rightarrow> ''Unknown'')
      in emit (InformationMessage (''Disconnected from '' @ clusterName)) w5)"

definition setActiveCluster :: "string \<Rightarrow> world \<Rightarrow> world" where
  "setActiveCluster i w = refresh (w\<lparr>activeClusterId := Some i\<rparr>)"

text \<open>
  \<open>storeClusterCredentials\<close> passes \<open>credentials.username\<close> and so on to \<open>secrets.store\<close>;
  with an empty credentials object the value is \<open>undefined\<close>, and the model then leaves
  no value under the key.
\<close>

definition secrets_store_opt :: "string \<Rightarrow> secret_field \<Rightarrow> string option \<Rightarrow> world \<Rightarrow> world" where
  "secrets_store_opt i f v w =
     (case v of Some s \<Rightarrow> secrets_store i f s w | None \<Rightarrow> secrets_delete i f w)"

definition cred_username :: "auth option \<Rightarrow> string option" where
  "cred_username c = (case c of Some (BasicAuth u p) \<Rightarrow> Some u | _ \<Rightarrow> None)"

definition cred_password :: "auth option \<Rightarrow> string option" where
  "cred_password c = (case c of Some (BasicAuth u p) \<Rightarrow> Some p | _ \<Rightarrow> None)"

definition cred_apiKey :: "auth option \<Rightarrow> string option" where
  "cred_apiKey c = (case c of Some (ApiKeyAuth k) \<Rightarrow> Some k | _ \<Rightarrow> None)"

definition storeClusterCredentials :: "string \<Rightarrow> string \<Rightarrow> auth option \<Rightarrow> world \<Rightarrow> world" where
  "storeClusterCredentials i method credentials w =
     (if method = ''Basic: Username/Password'' then
        secrets_store_opt i Password (cred_password credentials)
          (secrets_store_opt i Username (cred_username credentials) w)
      else if method = ''API Key'' then
        secrets_store_opt i ApiKey (cred_apiKey credentials) w
      else w)"

section \<open>Health\<close>

text \<open>\<open>v || d\<close> on an optional string and \<open>v || 0\<close> on an optional number.\<close>

definition or_str :: "string option \<Rightarrow> string \<Rightarrow> string" where
  "or_str v d = (case v of Some s \<Rightarrow> (if s = [] then d else s) | None \<Rightarrow> d)"

definition or_zero :: "nat option \<Rightarrow> nat" where
  "or_zero v = (case v of Some n \<Rightarrow> n | None \<Rightarrow> 0)"

definition unknownHealth :: "nat \<Rightarrow> ClusterHealth" where
  "unknownHealth now =
     \<lparr>status = ''unknown'', clusterName = ''Unknown'', numberOfNodes = 0,
      numberOfDataNodes = 0, activePrimaryShards = 0, activeShards = 0, lastChecked = now\<rparr>"

definition healthOf :: "HealthResponse \<Rightarrow> nat \<Rightarrow> ClusterHealth" where
  "healthOf h now =
     \<lparr>status = or_str (r_status h) ''unknown'',
      clusterName = or_str (r_cluster_name h) ''Unknown'',
      numberOfNodes = or_zero (r_number_of_nodes h),
      numberOfDataNodes = or_zero (r_number_of_data_nodes h),
      activePrimaryShards = or_zero (r_active_primary_shards h),
      activeShards = or_zero (r_active_shards h),
      lastChecked = now\<rparr>"

definition snapshotOf :: "HealthResponse option \<Rightarrow> nat \<Rightarrow> ClusterHealth" where
  "snapshotOf r now = (case r of Some h \<Rightarrow> healthOf h now | None \<Rightarrow> unknownHealth now)"

text \<open>
  The block \<open>try { health = await client.cluster.health(); clusterHealth.set(...) }
  catch { clusterHealth.set(..., unknown) }\<close>, which the source writes out three times:
  in \<open>refreshClusterHealth\<close>, \<open>connectToCluster\<close> and \<open>connectToClusterSilently\<close>.
\<close>

definition fetchHealth :: "env \<Rightarrow> string \<Rightarrow> clientOptions \<Rightarrow> world \<Rightarrow> world" where
  "fetchHealth en i client w =
     (let r = health_result en (clock w) i client;
          w1 = tick (emit (HealthQuery i r) w);
          now = date_now en (clock w1);
          w2 = tick w1
      in w2\<lparr>clusterHealth := AList.update i (snapshotOf r now) (clusterHealth w2)\<rparr>)"

fun refreshLoop :: "env \<Rightarrow> (string \<times> clientOptions) list \<Rightarrow> world \<Rightarrow> world" where
  "refreshLoop en [] w = w"
| "refreshLoop en ((i, client) # rest) w = refreshLoop en rest (fetchHealth en i client w)"

definition refreshClusterHealth :: "env \<Rightarrow> world \<Rightarrow> world" where
  "refreshClusterHealth en w = refresh (refreshLoop en (clients w) w)"

definition stopAutoRefresh :: "world \<Rightarrow> world" where
  "stopAutoRefresh w = (if refreshTimer w then w\<lparr>refreshTimer := False\<rparr> else w)"

definition startAutoRefresh :: "env \<Rightarrow> world \<Rightarrow> world" where
  "startAutoRefresh en w = refreshClusterHealth en ((stopAutoRefresh w)\<lparr>refreshTimer := True\<rparr>)"

definition toggleAutoRefresh :: "env \<Rightarrow> world \<Rightarrow> world" where
  "toggleAutoRefresh en w =
     (let w1 = w\<lparr>autoRefreshEnabled := \<not> autoRefreshEnabled w\<rparr>;
          w2 = w1\<lparr>gs_autoRefreshEnabled := autoRefreshEnabled w1\<rparr>
      in if autoRefreshEnabled w2
         then startAutoRefresh en (emit (InformationMessage
                ''Auto-refresh enabled: Health status will update every 60 seconds'') w2)
         else stopAutoRefresh (emit (InformationMessage ''Auto-refresh disabled'') w2))"

section \<open>Connecting\<close>

definition str_of :: "string option \<Rightarrow> string" where
  "str_of v = (case v of Some s \<Rightarrow> s | None \<Rightarrow> [])"

text \<open>
  The first part of \<open>connectToCluster\<close>: credentials missing from the secret store are
  asked for and stored; \<open>False\<close> is the early \<open>return false\<close>. The keys of the secret
  store are made from the \<open>clusterId\<close> the function was called with.
\<close>

definition promptForCredentials ::
  "env \<Rightarrow> string \<Rightarrow> ClusterConfig \<Rightarrow> world \<Rightarrow> bool \<times> world" where
  "promptForCredentials en i config w =
     (if authMethod config = ''Basic: Username/Password'' then
        (if truthy (secrets_get w i Username) \<and> truthy (secrets_get w i Password) then (True, w)
         else
           (let (username, w1) = showInputBox en (''Username for '' @ name config) w;
                (password, w2) = (if truthy username then showInputBox en ''Password'' w1
                                  else (None, w1))
            in if truthy username \<and> truthy password
               then (True, secrets_store i Password (str_of password)
                             (secrets_store i Username (str_of username) w2))
               else (False, emit (WarningMessage
                              ''Username and password are required to connect.'') w2)))
      else if authMethod config = ''API Key'' then
        (if truthy (secrets_get w i ApiKey) then (True, w)
         else
           (let (apiKey, w1) = showInputBox en (''API Key for '' @ name config) w
            in if truthy apiKey
               then (True, secrets_store i ApiKey (str_of apiKey) w1)
               else (False, emit (WarningMessage ''API Key is required to connect.'') w1)))
      else (True, w))"

text \<open>
  Building the client options, as both connect paths do it: endpoint, credentials read
  from the secret store when present, the TLS switch (which also assigns
  \<open>process.env.NODE_TLS_REJECT_UNAUTHORIZED\<close>) and the CA certificate.
\<close>

definition storedAuth :: "string \<Rightarrow> ClusterConfig \<Rightarrow> world \<Rightarrow> auth option" where
  "storedAuth i config w =
     (if authMethod config = ''Basic: Username/Password'' then
        (if truthy (secrets_get w i Username) \<and> truthy (secrets_get w i Password)
         then Some (BasicAuth (str_of (secrets_get w i Username)) (str_of (secrets_get w i Password)))
         else None)
      else if authMethod config = ''API Key'' then
        (if truthy (secrets_get w i ApiKey)
         then Some (ApiKeyAuth (str_of (secrets_get w i ApiKey))) else None)
      else None)"

definition buildClientOptions ::
  "string \<Rightarrow> ClusterConfig \<Rightarrow> world \<Rightarrow> clientOptions \<times> world" where
  "buildClientOptions i config w =
     (let tgt = (if deploymentType config = ''Elastic Cloud'' then Cloud (cloudId config)
                 else Node (nodeUrl config));
          a = storedAuth i config w;
          dis = (disableSSL config = Some True);
          w1 = (if dis then w\<lparr>NODE_TLS_REJECT_UNAUTHORIZED := Some ''0''\<rparr> else w);
          ca = (if truthy (gs_caCertificate w1) then gs_caCertificate w1 else None)
      in (\<lparr>target = tgt, auth = a,
           ssl_rejectUnauthorized = (if dis then Some False else None), tls_ca = ca\<rparr>, w1))"

text \<open>
  \<open>connectToCluster\<close>. Constructing the client and \<open>ping()\<close> stand in the same \<open>try\<close>;
  a throw of either is the probe failing. The text of \<open>err.message\<close> is left out of the
  error message.
\<close>

definition connectToCluster :: "env \<Rightarrow> string \<Rightarrow> world \<Rightarrow> bool \<times> world" where
  "connectToCluster en i w =
     (case map_of (clusters w) i of
        None \<Rightarrow> (False, emit (ErrorMessage (''Cluster '' @ i @ '' not found'')) w)
      | Some config \<Rightarrow>
          (let (go, w1) = promptForCredentials en i config w in
           if go then
             (let (opts, w2) = buildClientOptions i config w1;
                  pong = ping_result en (clock w2) i opts;
                  w3 = tick (emit (Ping i opts pong) w2)
              in if pong then
                   (let w4 = w3\<lparr>clients := AList.update i opts (clients w3),
                                 activeClusterId := Some i\<rparr>;
                        w5 = saveConnectedCluster i w4
                    in (True, fetchHealth en i opts w5))
                 else
                   (False, emit (ErrorMessage (''Failed to connect to '' @ name config))
                             (emit (ConsoleLog ''[ESExt] Failed to connect to cluster'') w3)))
           else (False, w1)))"

definition connectToClusterSilently :: "env \<Rightarrow> string \<Rightarrow> world \<Rightarrow> bool \<times> world" where
  "connectToClusterSilently en i w =
     (case map_of (clusters w) i of
        None \<Rightarrow> (False, w)
      | Some config \<Rightarrow>
          (let (opts, w1) = buildClientOptions i config w;
               pong = ping_result en (clock w1) i opts;
               w2 = tick (emit (Ping i opts pong) w1)
           in if pong then
                (let w3 = w2\<lparr>clients := AList.update i opts (clients w2)\<rparr>;
                     w4 = (if truthy (activeClusterId w3) then w3
                           else w3\<lparr>activeClusterId := Some i\<rparr>)
                 in (True, fetchHealth en i opts w4))
              else (False, emit (ConsoleLog ''[ESExt] Silent reconnect failed for cluster'') w2)))"

section \<open>Auto-reconnect at startup\<close>

text \<open>
  The body of the loop of \<open>autoReconnectClusters\<close> for one id of the reconnect-set;
  the result says which of the two counters the id goes to.
  \<open>connectToClusterSilently\<close> catches every exception itself, so the \<open>catch\<close> of the
  loop body has no case of its own.
\<close>

definition reconnectOne :: "env \<Rightarrow> string \<Rightarrow> world \<Rightarrow> bool \<times> world" where
  "reconnectOne en i w =
     (case map_of (clusters w) i of
        None \<Rightarrow> (False, removeConnectedCluster i w)
      | Some config \<Rightarrow>
          (case connectToClusterSilently en i w of
             (True, w1) \<Rightarrow> (True, w1)
           | (False, w1) \<Rightarrow> (False, removeConnectedCluster i w1)))"

text \<open>The loop over the reconnect-set as read before the loop, with the two counters.\<close>

fun reconnectLoop :: "env \<Rightarrow> string list \<Rightarrow> world \<Rightarrow> nat \<Rightarrow> nat \<Rightarrow> world \<times> nat \<times> nat" where
  "reconnectLoop en [] w r f = (w, r, f)"
| "reconnectLoop en (i # rest) w r f =
     (case reconnectOne en i w of
        (True, w1) \<Rightarrow> reconnectLoop en rest w1 (Suc r) f
      | (False, w1) \<Rightarrow> reconnectLoop en rest w1 r (Suc f))"

definition reconnectMessage :: "nat \<Rightarrow> nat \<Rightarrow> string" where
  "reconnectMessage r f =
     (let m = (if 0 < r then ''Auto-reconnected '' @ show_nat r @ '' cluster(s).'' else [])
      in if 0 < f
         then (if m = [] then m else m @ '' '') @ show_nat f @ '' cluster(s) failed to reconnect.''
         else m)"

definition autoReconnectClusters :: "env \<Rightarrow> world \<Rightarrow> world" where
  "autoReconnectClusters en w =
     (let connectedClusters = gs_connectedClusters w in
      if connectedClusters = [] then w
      else
        (case reconnectLoop en connectedClusters w 0 0 of
           (w1, r, f) \<Rightarrow>
             if 0 < r \<or> 0 < f then
               (if 0 < f then emit (WarningMessage (reconnectMessage r f)) w1
                else emit (InformationMessage (reconnectMessage r f)) w1)
             else w1))"

fun loadLoop :: "env \<Rightarrow> string list \<Rightarrow> world \<Rightarrow> world" where
  "loadLoop en [] w = w"
| "loadLoop en (i # rest) w =
     (if truthy (secrets_get w i Config) then
        (case JSON_parse en (str_of (secrets_get w i Config)) of
           Some config \<Rightarrow> loadLoop en rest (w\<lparr>clusters := AList.update i config (clusters w)\<rparr>)
         | None \<Rightarrow> loadLoop en rest (emit (ConsoleLog ''[ESExt] Failed to parse cluster config'') w))
      else loadLoop en rest w)"

definition loadClusters :: "env \<Rightarrow> world \<Rightarrow> world" where
  "loadClusters en w =
     (let w1 = loadLoop en (gs_clusterIds w) w in
      if clusters w1 = [] then w1
      else if truthy (activeClusterId w1) then w1
      else w1\<lparr>activeClusterId := first_key (clusters w1)\<rparr>)"

definition loadClustersOnStartup :: "env \<Rightarrow> world \<Rightarrow> world" where
  "loadClustersOnStartup en w = refresh (autoReconnectClusters en (loadClusters en w))"

section \<open>The commands of \<open>activate\<close>\<close>

text \<open>
  The command \<open>esExt.addCluster\<close>. Its first part asks for the configuration and
  returns early when an answer is missing; what it has gathered when it reaches the
  connection test is the configuration to save, the credentials and the options of the
  temporary client.
\<close>

record addInput =
  in_config :: ClusterConfig
  in_credentials :: "auth option"
  in_clientOptions :: clientOptions

definition promptEndpoint ::
  "env \<Rightarrow> string option \<Rightarrow> world \<Rightarrow> (string option \<times> string option) option \<times> world" where
  "promptEndpoint en dt w =
     (if dt = Some ''Elastic Cloud'' then
        (let (cl, w1) = showInputBox en ''Elastic Cloud ID'' w
         in if truthy cl then (Some (None, cl), w1) else (None, w1))
      else
        (let (nu, w1) = showInputBox en ''Full Elasticsearch URL (include protocol and port)'' w
         in if truthy nu then (Some (nu, None), w1) else (None, w1)))"

definition promptNewCredentials :: "env \<Rightarrow> string option \<Rightarrow> world \<Rightarrow> auth option \<times> world" where
  "promptNewCredentials en am w =
     (if am = Some ''Basic: Username/Password'' then
        (let (username, w1) = showInputBox en ''Username'' w;
             (password, w2) = (if truthy username then showInputBox en ''Password'' w1
                               else (None, w1))
         in if truthy username \<and> truthy password
            then (Some (BasicAuth (str_of username) (str_of password)), w2)
            else (None, w2))
      else if am = Some ''API Key'' then
        (let (apiKey, w1) = showInputBox en ''API Key'' w
         in if truthy apiKey then (Some (ApiKeyAuth (str_of apiKey)), w1) else (None, w1))
      else (None, w))"

definition addClusterPrompts :: "env \<Rightarrow> world \<Rightarrow> addInput option \<times> world" where
  "addClusterPrompts en w =
     (let clusterId = ''cluster-'' @ show_nat (date_now en (clock w));
          w0 = tick w;
          (nm, w1) = showInputBox en ''Cluster Name'' w0
      in if truthy nm then
        (let (dt, w2) = showQuickPick en ''Select Elasticsearch deployment type'' w1
         in if truthy dt then
           (case promptEndpoint en dt w2 of
              (None, w3) \<Rightarrow> (None, w3)
            | (Some (nu, cl), w3) \<Rightarrow>
                (let (am, w4) = showQuickPick en ''Select auth method'' w3
                 in if truthy am then
                   (let (credentials, w5) = promptNewCredentials en am w4;
                        (ds, w6) = showQuickPick en
                           ''Disable SSL certificate verification? (insecure)'' w5;
                        dis = (ds = Some ''Yes'');
                        w7 = (if dis then w6\<lparr>NODE_TLS_REJECT_UNAUTHORIZED := Some ''0''\<rparr>
                              else w6)
                    in (Some \<lparr>in_config =
                                \<lparr>cid = clusterId, name = str_of nm, deploymentType = str_of dt,
                                 nodeUrl = nu, cloudId = cl, authMethod = str_of am,
                                 disableSSL = Some dis\<rparr>,
                              in_credentials = credentials,
                              in_clientOptions =
                                \<lparr>target = (if dt = Some ''Elastic Cloud'' then Cloud cl else Node nu),
                                 auth = credentials,
                                 ssl_rejectUnauthorized = (if dis then Some False else None),
                                 tls_ca = None\<rparr>\<rparr>, w7))
                   else (None, w4)))
         else (None, w2))
      else (None, w1))"

text \<open>
  The second part, from the comment \<open>// Test connection\<close> on: the temporary client is
  pinged inside the \<open>try\<close>, and the three calls that save the profile, store the
  credentials and connect come after the ping in the same \<open>try\<close>. The result of
  \<open>connectToCluster\<close> is not looked at.
\<close>

definition addClusterTestAndSave :: "env \<Rightarrow> addInput \<Rightarrow> world \<Rightarrow> world" where
  "addClusterTestAndSave en inp w =
     (let config = in_config inp;
          pong = ping_result en (clock w) (cid config) (in_clientOptions inp);
          w1 = tick (emit (Ping (cid config) (in_clientOptions inp) pong) w)
      in if pong then
           (let w2 = addCluster en config w1;
                w3 = storeClusterCredentials (cid config) (authMethod config) (in_credentials inp) w2;
                (ok, w4) = connectToCluster en (cid config) w3
            in refresh (emit (InformationMessage
                  (''Successfully added and connected to cluster: '' @ name config)) w4))
         else emit (ErrorMessage ''Failed to connect to cluster'') w1)"

definition addClusterCommand :: "env \<Rightarrow> world \<Rightarrow> world" where
  "addClusterCommand en w =
     (case addClusterPrompts en w of
        (None, w1) \<Rightarrow> w1
      | (Some inp, w1) \<Rightarrow> addClusterTestAndSave en inp w1)"

text \<open>The command \<open>esExt.clearAllClusterData\<close>.\<close>

fun clearSecretsLoop :: "string list \<Rightarrow> world \<Rightarrow> world" where
  "clearSecretsLoop [] w = w"
| "clearSecretsLoop (i # rest) w =
     clearSecretsLoop rest
       (secrets_delete i ApiKey (secrets_delete i Password
          (secrets_delete i Username (secrets_delete i Config w))))"


section \<open>Import\<close>

definition generateClusterId :: "env \<Rightarrow> world \<Rightarrow> string \<times> world" where
  "generateClusterId en w =
     (''cluster_'' @ show_nat (date_now en (clock w)) @ ''_'' @ math_random en (Suc (clock w)),
      tick (tick w))"

definition entry_complete :: "ClusterExportData \<Rightarrow> bool" where
  "entry_complete e = (truthy (e_name e) \<and> truthy (e_deploymentType e) \<and> truthy (e_authMethod e))"

definition importOne :: "env \<Rightarrow> ClusterExportData \<Rightarrow> world \<Rightarrow> world" where
  "importOne en e w =
     (let (newId, w1) = generateClusterId en w
      in addCluster en
           \<lparr>cid = newId, name = str_of (e_name e), deploymentType = str_of (e_deploymentType e),
            nodeUrl = e_nodeUrl e, cloudId = e_cloudId e, authMethod = str_of (e_authMethod e),
            disableSSL = e_disableSSL e\<rparr> w1)"

text \<open>
  The loop of \<open>importClusters\<close> with its two counters. It ends with the counters for
  the summary, or with the \<open>TypeError\<close> that reading \<open>clusterData.name\<close> throws on an
  entry that is \<open>null\<close>; the state is the one reached by then. The answer to the
  collision question is compared with \<open>'Cancel'\<close> and \<open>'No'\<close> only: every other answer,
  a dismissed dialog too, overwrites.
\<close>

datatype importOutcome = Summary world nat nat | Thrown world

fun world_of :: "importOutcome \<Rightarrow> world" where
  "world_of (Summary w imported skipped) = w"
| "world_of (Thrown w) = w"

fun importLoop :: "env \<Rightarrow> ClusterExportData option list \<Rightarrow> world \<Rightarrow> nat \<Rightarrow> nat \<Rightarrow> importOutcome" where
  "importLoop en [] w imported skipped = Summary w imported skipped"
| "importLoop en (None # rest) w imported skipped = Thrown w"
| "importLoop en (Some e # rest) w imported skipped =
     (if entry_complete e then
        (case find (\<lambda>c. name c = str_of (e_name e)) (map snd (clusters w)) of
           None \<Rightarrow> importLoop en rest (importOne en e w) (Suc imported) skipped
         | Some existingCluster \<Rightarrow>
             (let (overwrite, w1) = showQuickPick en
                    (''Cluster '' @ [CHR 0x22] @ str_of (e_name e) @ [CHR 0x22]
                      @ '' already exists. Do you want to overwrite it?'') w
              in if overwrite = Some ''Cancel'' then Summary w1 imported skipped
                 else if overwrite = Some ''No'' then importLoop en rest w1 imported (Suc skipped)
                 else importLoop en rest (importOne en e (removeCluster (cid existingCluster) w1))
                        (Suc imported) skipped))
      else importLoop en rest (emit (ConsoleLog ''[ESExt] Skipping invalid cluster'') w)
             imported (Suc skipped))"

definition importMessage :: "nat \<Rightarrow> nat \<Rightarrow> string" where
  "importMessage imported skipped =
     ''Successfully imported '' @ show_nat imported @ '' cluster(s).''
     @ (if 0 < skipped then '' '' @ show_nat skipped @ '' cluster(s) were skipped.'' else [])
     @ (if 0 < imported
        then [CHR 0x0A, CHR 0x0A]
             @ ''Note: You will need to configure authentication credentials for the imported clusters.''
        else [])"

text \<open>
  \<open>importClusters\<close>: the whole body is in one \<open>try\<close>, whose \<open>catch\<close> logs and shows
  \<open>Failed to import clusters\<close>; the summary is shown only when the loop has ended
  without throwing.
\<close>

definition importFailed :: "world \<Rightarrow> world" where
  "importFailed w =
     emit (ErrorMessage ''Failed to import clusters'')
       (emit (ConsoleLog ''[ESExt] Failed to import clusters'') w)"

definition importClusters :: "env \<Rightarrow> world \<Rightarrow> world" where
  "importClusters en w =
     (let w1 = tick w in
      case import_read en (clock w) of
        NoFileChosen \<Rightarrow> w1
      | Unparseable \<Rightarrow> importFailed w1
      | NoClusterArray \<Rightarrow> emit (ErrorMessage ''Invalid cluster configuration file format.'') w1
      | ClusterArray entries \<Rightarrow>
          (case importLoop en entries w1 0 0 of
             Summary w2 imported skipped \<Rightarrow>
               emit (InformationMessage (importMessage imported skipped)) w2
           | Thrown w2 \<Rightarrow> importFailed w2))"

section \<open>Example states\<close>

definition example_env :: env where
  "example_env =
     \<lparr>ping_result = (\<lambda>t i c. True),
      health_result = (\<lambda>t i c. if i = ''b'' then None
         else Some \<lparr>r_status = Some ''green'', r_cluster_name = Some ''es'',
                    r_number_of_nodes = Some 3, r_number_of_data_nodes = Some 2,
                    r_active_primary_shards = Some 5, r_active_shards = Some 10\<rparr>),
      input_box = (\<lambda>t. None), pick_answer = (\<lambda>t. Some ''Yes, clear all''),
      date_now = (\<lambda>t. 1000 + t), math_random = (\<lambda>t. ''abcdefghi''),
      JSON_stringify = (\<lambda>c. name c), JSON_parse = (\<lambda>s. None),
      import_read = (\<lambda>t. NoFileChosen)\<rparr>"

definition unreachable_env :: env where
  "unreachable_env = example_env\<lparr>ping_result := (\<lambda>t i c. False)\<rparr>"

definition example_config :: "string \<Rightarrow> string \<Rightarrow> bool option \<Rightarrow> ClusterConfig" where
  "example_config i method d =
     \<lparr>cid = i, name = i, deploymentType = ''Self-managed Cluster'',
      nodeUrl = Some ''http://localhost:9200'', cloudId = None, authMethod = method,
      disableSSL = d\<rparr>"

definition example_client :: clientOptions where
  "example_client =
     \<lparr>target = Node (Some ''http://localhost:9200''), auth = None,
      ssl_rejectUnauthorized = None, tls_ca = None\<rparr>"

definition green_snapshot :: ClusterHealth where
  "green_snapshot =
     \<lparr>status = ''green'', clusterName = ''es'', numberOfNodes = 3, numberOfDataNodes = 2,
      activePrimaryShards = 5, activeShards = 10, lastChecked = 1000\<rparr>"

definition empty_world :: world where
  "empty_world =
     \<lparr>clusters = [], clients = [], clusterHealth = [], activeClusterId = None,
      autoRefreshEnabled = False, refreshTimer = False, gs_clusterIds = [],
      gs_connectedClusters = [], gs_autoRefreshEnabled = False, gs_caCertificate = None,
      secrets = [], NODE_TLS_REJECT_UNAUTHORIZED = None, clock = 0, trace = []\<rparr>"

text \<open>
  Three profiles: \<open>a\<close> without authentication, connected and active, with a snapshot;
  \<open>b\<close> without authentication and with TLS verification disabled; \<open>c\<close> with basic
  authentication and no credentials stored.
\<close>

definition example_world :: world where
  "example_world =
     \<lparr>clusters = [(''a'', example_config ''a'' ''None'' None),
                  (''b'', example_config ''b'' ''None'' (Some True)),
                  (''c'', example_config ''c'' ''Basic: Username/Password'' None)],
      clients = [(''a'', example_client)],
      clusterHealth = [(''a'', green_snapshot)],
      activeClusterId = Some ''a'',
      autoRefreshEnabled = False, refreshTimer = False,
      gs_clusterIds = [''a'', ''b'', ''c''],
      gs_connectedClusters = [''a''], gs_autoRefreshEnabled = False,
      gs_caCertificate = None,
      secrets = [((''a'', Config), ''a''), ((''b'', Config), ''b''), ((''c'', Config), ''c'')],
      NODE_TLS_REJECT_UNAUTHORIZED = None, clock = 0, trace = []\<rparr>"

text \<open>Three profiles, two of them connected, credentials stored, auto-refresh running.\<close>

definition busy_world :: world where
  "busy_world =
     example_world
       \<lparr>clients := [(''a'', example_client), (''b'', example_client)],
        clusterHealth := [(''a'', green_snapshot), (''b'', green_snapshot)],
        autoRefreshEnabled := True, refreshTimer := True,
        gs_connectedClusters := [''a'', ''b''], gs_autoRefreshEnabled := True,
        secrets := [((''a'', Config), ''a''), ((''b'', Config), ''b''), ((''c'', Config), ''c''),
                    ((''c'', Username), ''elastic''), ((''c'', Password), ''changeme'')]\<rparr>"

text \<open>The health queries of one tick that starts at time \<open>t\<close>, in the order of the registry.\<close>

fun tickQueries :: "env \<Rightarrow> (string \<times> clientOptions) list \<Rightarrow> nat \<Rightarrow> event list" where
  "tickQueries en [] t = []"
| "tickQueries en ((i, client) # rest) t =
     HealthQuery i (health_result en t i client) # tickQueries en rest (t + 2)"

text \<open>Kinds of events.\<close>

fun is_ping :: "event \<Rightarrow> bool" where
  "is_ping (Ping i opts b) = True"
| "is_ping _ = False"


fun is_prompt :: "event \<Rightarrow> bool" where
  "is_prompt (InputBox p a) = True"
| "is_prompt (QuickPick p a) = True"
| "is_prompt _ = False"

text \<open>
  An add flow against an endpoint that does not answer: the answers to the prompts of
  \<open>esExt.addCluster\<close> in their order (name, deployment type, URL, authentication
  method, user name, password, TLS question), and a failing probe.
\<close>

definition add_flow_env :: env where
  "add_flow_env =
     unreachable_env
       \<lparr>input_box := (\<lambda>t. if t = 1 then Some ''Local''
                           else if t = 3 then Some ''http://localhost:9200''
                           else if t = 5 then Some ''elastic''
                           else if t = 6 then Some ''changeme'' else None),
        pick_answer := (\<lambda>t. if t = 2 then Some ''Self-managed Cluster''
                             else if t = 4 then Some ''Basic: Username/Password''
                             else Some ''No'')\<rparr>"

definition add_flow_input :: addInput where
  "add_flow_input =
     \<lparr>in_config =
        \<lparr>cid = ''cluster-1000'', name = ''Local'', deploymentType = ''Self-managed Cluster'',
         nodeUrl = Some ''http://localhost:9200'', cloudId = None,
         authMethod = ''Basic: Username/Password'', disableSSL = Some False\<rparr>,
      in_credentials = Some (BasicAuth ''elastic'' ''changeme''),
      in_clientOptions =
        \<lparr>target = Node (Some ''http://localhost:9200''),
         auth = Some (BasicAuth ''elastic'' ''changeme''),
         ssl_rejectUnauthorized = None, tls_ca = None\<rparr>\<rparr>"

text \<open>An endpoint that answers the first probe only.\<close>

definition flaky_env :: env where
  "flaky_env = example_env\<lparr>ping_result := (\<lambda>t i c. t = 0)\<rparr>"

fun ping_ok :: "event \<Rightarrow> bool" where
  "ping_ok (Ping i opts b) = b"
| "ping_ok _ = False"

text \<open>
  The state after a restart: the three profiles loaded, nothing connected, and \<open>a\<close>
  and \<open>c\<close> in the reconnect-set; \<open>c\<close> needs basic authentication and has no
  credentials stored.
\<close>

definition restart_world :: world where
  "restart_world =
     example_world\<lparr>clients := [], clusterHealth := [], gs_connectedClusters := [''a'', ''c'']\<rparr>"

text \<open>An outside where only \<open>a\<close> answers the probe.\<close>

definition only_a_env :: env where
  "only_a_env = example_env\<lparr>ping_result := (\<lambda>t i c. i = ''a'')\<rparr>"

text \<open>
  Entries of an import document: a complete one, which carries the \<open>id\<close> of the existing
  profile \<open>a\<close>, and an object without properties. The two documents differ in their
  second entry only, which is \<open>null\<close> in the one and an object without properties in
  the other. \<open>import_env\<close> is an outside where the chosen file holds the given cluster
  array; in \<open>frozen_env\<close> the clock and the random generator give the same values at
  every call.
\<close>

definition import_entry :: "string option \<Rightarrow> ClusterExportData" where
  "import_entry n =
     \<lparr>e_id = Some ''a'', e_name = n, e_deploymentType = Some ''Self-managed Cluster'',
      e_nodeUrl = Some ''http://localhost:9200'', e_cloudId = None,
      e_authMethod = Some ''Basic: Username/Password'', e_disableSSL = None\<rparr>"

definition empty_entry :: ClusterExportData where
  "empty_entry =
     \<lparr>e_id = None, e_name = None, e_deploymentType = None, e_nodeUrl = None, e_cloudId = None,
      e_authMethod = None, e_disableSSL = None\<rparr>"

definition null_document :: "ClusterExportData option list" where
  "null_document = [Some (import_entry (Some ''new'')), None, Some (import_entry (Some ''late''))]"

definition sparse_document :: "ClusterExportData option list" where
  "sparse_document =
     [Some (import_entry (Some ''new'')), Some empty_entry, Some (import_entry (Some ''late''))]"

definition import_env :: "ClusterExportData option list \<Rightarrow> env" where
  "import_env entries = example_env\<lparr>import_read := (\<lambda>t. ClusterArray entries)\<rparr>"

definition frozen_env :: "ClusterExportData option list \<Rightarrow> env" where
  "frozen_env entries = (import_env entries)\<lparr>date_now := (\<lambda>t. 1000)\<rparr>"



section \<open>Basic facts\<close>

lemmas prim_defs = emit_def tick_def refresh_def secrets_get_def secrets_store_def
  secrets_delete_def events_since_def

lemmas example_defs = example_env_def unreachable_env_def example_config_def
  example_client_def green_snapshot_def empty_world_def example_world_def busy_world_def

lemmas connect_defs = connectToCluster_def connectToClusterSilently_def
  promptForCredentials_def buildClientOptions_def storedAuth_def saveConnectedCluster_def
  fetchHealth_def showInputBox_def showQuickPick_def

lemma emit_fields:
  "clusters (emit e w) = clusters w" "clients (emit e w) = clients w"
  "clusterHealth (emit e w) = clusterHealth w" "activeClusterId (emit e w) = activeClusterId w"
  "gs_clusterIds (emit e w) = gs_clusterIds w"
  "gs_connectedClusters (emit e w) = gs_connectedClusters w"
  "secrets (emit e w) = secrets w" "clock (emit e w) = clock w"
  "trace (emit e w) = trace w @ [e]"
  by (simp_all add: emit_def)

lemma tick_fields:
  "clusters (tick w) = clusters w" "clients (tick w) = clients w"
  "clusterHealth (tick w) = clusterHealth w" "activeClusterId (tick w) = activeClusterId w"
  "gs_clusterIds (tick w) = gs_clusterIds w"
  "gs_connectedClusters (tick w) = gs_connectedClusters w"
  "secrets (tick w) = secrets w" "clock (tick w) = Suc (clock w)"
  "trace (tick w) = trace w"
  by (simp_all add: tick_def)

lemma refresh_fields:
  "clusters (refresh w) = clusters w" "clients (refresh w) = clients w"
  "clusterHealth (refresh w) = clusterHealth w" "activeClusterId (refresh w) = activeClusterId w"
  "gs_clusterIds (refresh w) = gs_clusterIds w"
  "gs_connectedClusters (refresh w) = gs_connectedClusters w"
  "secrets (refresh w) = secrets w" "clock (refresh w) = clock w"
  "trace (refresh w) = trace w @ [TreeDataChanged]"
  by (simp_all add: refresh_def emit_def)

lemmas step_fields = emit_fields tick_fields refresh_fields

lemma secrets_get_cong: "secrets w' = secrets w \<Longrightarrow> secrets_get w' i f = secrets_get w i f"
  by (simp add: secrets_get_def)

section \<open>Removing a profile and the health cache\<close>

text \<open>
  C4. A snapshot is to be present only while a handle is. \<open>disconnectFromCluster\<close>
  deletes both; \<open>removeCluster\<close> deletes the handle and leaves the snapshot: removing
  the connected profile \<open>a\<close> of the example state leaves no handle for \<open>a\<close> and the
  snapshot of \<open>a\<close> in the health cache.
\<close>

theorem removeCluster_leaves_snapshot:
  "map_of (clients example_world) ''a'' = Some example_client \<and>
   map_of (clients (removeCluster ''a'' example_world)) ''a'' = None \<and>
   map_of (clusterHealth (removeCluster ''a'' example_world)) ''a'' = Some green_snapshot"
  by (simp add: removeCluster_def removeConnectedCluster_def prim_defs example_defs Let_def)

lemma removeCluster_keeps_health_cache:
  "clusterHealth (removeCluster i w) = clusterHealth w \<and>
   map_of (clients (removeCluster i w)) i = None"
  by (simp add: removeCluster_def removeConnectedCluster_def prim_defs Let_def delete_conv')

lemma disconnect_purges_snapshot:
  "map_of (clients (disconnectFromCluster i w)) i = None \<and>
   map_of (clusterHealth (disconnectFromCluster i w)) i = None"
  by (simp add: disconnectFromCluster_def removeConnectedCluster_def prim_defs Let_def delete_conv')

section \<open>Adding a profile\<close>

text \<open>
  C10. \<open>addCluster\<close> makes the new profile active exactly when no pointer is set (the
  pointer is \<open>undefined\<close> or the empty string, the two values \<open>!this.activeClusterId\<close>
  accepts) and otherwise keeps the pointer. It writes the profile table at the new id,
  the stored configuration of the new id and the list of known ids, and fires the change
  event once; the other profiles, every other secret, the registry, the health cache,
  the reconnect-set, the auto-refresh state, the CA certificate and the process
  environment are as before.
\<close>

theorem addCluster_pointer_and_frame:
  "(let w' = addCluster en config w in
     (truthy (activeClusterId w) \<longrightarrow> activeClusterId w' = activeClusterId w) \<and>
     (\<not> truthy (activeClusterId w) \<longrightarrow> activeClusterId w' = Some (cid config)) \<and>
     map_of (clusters w') (cid config) = Some config \<and>
     (\<forall>j. j \<noteq> cid config \<longrightarrow> map_of (clusters w') j = map_of (clusters w) j) \<and>
     secrets_get w' (cid config) Config = Some (JSON_stringify en config) \<and>
     (\<forall>j f. (j, f) \<noteq> (cid config, Config) \<longrightarrow> secrets_get w' j f = secrets_get w j f) \<and>
     set (gs_clusterIds w') = insert (cid config) (set (gs_clusterIds w)) \<and>
     clients w' = clients w \<and> clusterHealth w' = clusterHealth w \<and>
     gs_connectedClusters w' = gs_connectedClusters w \<and>
     autoRefreshEnabled w' = autoRefreshEnabled w \<and> refreshTimer w' = refreshTimer w \<and>
     gs_autoRefreshEnabled w' = gs_autoRefreshEnabled w \<and>
     gs_caCertificate w' = gs_caCertificate w \<and>
     NODE_TLS_REJECT_UNAUTHORIZED w' = NODE_TLS_REJECT_UNAUTHORIZED w \<and>
     events_since w w' = [TreeDataChanged])"
  by (auto simp: addCluster_def saveClusterConfig_def prim_defs Let_def update_conv')

theorem addCluster_pointer_and_frame_witness:
  "truthy (activeClusterId example_world) \<and>
   activeClusterId (addCluster example_env (example_config ''d'' ''None'' None) example_world)
     = Some ''a'' \<and>
   \<not> truthy (activeClusterId empty_world) \<and>
   activeClusterId (addCluster example_env (example_config ''d'' ''None'' None) empty_world)
     = Some ''d'' \<and>
   map_of (clusters (addCluster example_env (example_config ''d'' ''None'' None) example_world)) ''a''
     = Some (example_config ''a'' ''None'' None) \<and>
   secrets_get (addCluster example_env (example_config ''d'' ''None'' None) example_world) ''c'' Config
     = Some ''c'' \<and>
   clients (addCluster example_env (example_config ''d'' ''None'' None) example_world)
     = [(''a'', example_client)]"
  using addCluster_pointer_and_frame [of example_env "example_config ''d'' ''None'' None" example_world]
    addCluster_pointer_and_frame [of example_env "example_config ''d'' ''None'' None" empty_world]
  by (simp add: Let_def truthy_def example_defs prim_defs)

lemma promptForCredentials_frame:
  "clusters (snd (promptForCredentials en i c w)) = clusters w"
  "clients (snd (promptForCredentials en i c w)) = clients w"
  "clusterHealth (snd (promptForCredentials en i c w)) = clusterHealth w"
  "activeClusterId (snd (promptForCredentials en i c w)) = activeClusterId w"
  "gs_clusterIds (snd (promptForCredentials en i c w)) = gs_clusterIds w"
  "gs_connectedClusters (snd (promptForCredentials en i c w)) = gs_connectedClusters w"
  "gs_caCertificate (snd (promptForCredentials en i c w)) = gs_caCertificate w"
  "NODE_TLS_REJECT_UNAUTHORIZED (snd (promptForCredentials en i c w)) = NODE_TLS_REJECT_UNAUTHORIZED w"
  by (simp_all add: promptForCredentials_def showInputBox_def prim_defs Let_def split: prod.splits)

lemma buildClientOptions_world:
  "snd (buildClientOptions i c w)
     = (if disableSSL c = Some True then w\<lparr>NODE_TLS_REJECT_UNAUTHORIZED := Some ''0''\<rparr> else w)"
  by (simp add: buildClientOptions_def Let_def)


lemma fetchHealth_frame:
  "clusters (fetchHealth en i c w) = clusters w"
  "clients (fetchHealth en i c w) = clients w"
  "activeClusterId (fetchHealth en i c w) = activeClusterId w"
  "gs_clusterIds (fetchHealth en i c w) = gs_clusterIds w"
  "gs_connectedClusters (fetchHealth en i c w) = gs_connectedClusters w"
  "gs_caCertificate (fetchHealth en i c w) = gs_caCertificate w"
  "secrets (fetchHealth en i c w) = secrets w"
  "NODE_TLS_REJECT_UNAUTHORIZED (fetchHealth en i c w) = NODE_TLS_REJECT_UNAUTHORIZED w"
  by (simp_all add: fetchHealth_def prim_defs Let_def)

text \<open>The two connect paths, once the profile is known, in terms of their parts.\<close>

lemma connectToCluster_known:
  assumes "map_of (clusters w) i = Some config"
  shows "connectToCluster en i w =
     (let w1 = snd (promptForCredentials en i config w) in
      if fst (promptForCredentials en i config w) then
        (let opts = fst (buildClientOptions i config w1);
             w2 = snd (buildClientOptions i config w1);
             pong = ping_result en (clock w2) i opts;
             w3 = tick (emit (Ping i opts pong) w2)
         in if pong then
              (True, fetchHealth en i opts
                 (saveConnectedCluster i
                    (w3\<lparr>clients := AList.update i opts (clients w3), activeClusterId := Some i\<rparr>)))
            else (False, emit (ErrorMessage (''Failed to connect to '' @ name config))
                           (emit (ConsoleLog ''[ESExt] Failed to connect to cluster'') w3)))
      else (False, w1))"
  using assms by (simp add: connectToCluster_def Let_def split: prod.splits)

lemma connectToClusterSilently_known:
  assumes "map_of (clusters w) i = Some config"
  shows "connectToClusterSilently en i w =
     (let opts = fst (buildClientOptions i config w);
          w1 = snd (buildClientOptions i config w);
          pong = ping_result en (clock w1) i opts;
          w2 = tick (emit (Ping i opts pong) w1)
      in if pong then
           (True, fetchHealth en i opts
              (if truthy (activeClusterId w2)
               then w2\<lparr>clients := AList.update i opts (clients w2)\<rparr>
               else w2\<lparr>clients := AList.update i opts (clients w2), activeClusterId := Some i\<rparr>))
         else (False, emit (ConsoleLog ''[ESExt] Silent reconnect failed for cluster'') w2))"
  using assms by (simp add: connectToClusterSilently_def Let_def split: prod.splits)

lemma connectToCluster_unknown:
  "map_of (clusters w) i = None \<Longrightarrow>
   connectToCluster en i w = (False, emit (ErrorMessage (''Cluster '' @ i @ '' not found'')) w)"
  by (simp add: connectToCluster_def)

lemma connectToClusterSilently_unknown:
  "map_of (clusters w) i = None \<Longrightarrow> connectToClusterSilently en i w = (False, w)"
  by (simp add: connectToClusterSilently_def)

section \<open>The active pointer on connect\<close>

text \<open>
  C7, as the code has it. A successful \<open>connectToCluster\<close> makes its profile the active
  one whatever the pointer was before (the callers read the active profile afterwards
  to name the cluster they connected to); a failed one keeps the pointer. Only the
  silent path of the auto-reconnect sets the pointer when none is set and keeps it
  otherwise.
\<close>

theorem connect_active_pointer:
  "(fst (connectToCluster en i w) \<longrightarrow>
      activeClusterId (snd (connectToCluster en i w)) = Some i) \<and>
   (\<not> fst (connectToCluster en i w) \<longrightarrow>
      activeClusterId (snd (connectToCluster en i w)) = activeClusterId w) \<and>
   (fst (connectToClusterSilently en i w) \<longrightarrow>
      activeClusterId (snd (connectToClusterSilently en i w))
        = (if truthy (activeClusterId w) then activeClusterId w else Some i)) \<and>
   (\<not> fst (connectToClusterSilently en i w) \<longrightarrow>
      activeClusterId (snd (connectToClusterSilently en i w)) = activeClusterId w)"
proof (cases "map_of (clusters w) i")
  case None
  then show ?thesis
    by (simp add: connectToCluster_unknown connectToClusterSilently_unknown emit_def)
next
  case (Some config)
  show ?thesis
    by (simp add: connectToCluster_known [OF Some] connectToClusterSilently_known [OF Some]
          Let_def fetchHealth_frame promptForCredentials_frame buildClientOptions_world
          saveConnectedCluster_def emit_def tick_def)
qed

theorem connect_active_pointer_witness:
  "fst (connectToCluster example_env ''b'' example_world) \<and>
   activeClusterId (snd (connectToCluster example_env ''b'' example_world)) = Some ''b'' \<and>
   \<not> fst (connectToCluster unreachable_env ''b'' example_world) \<and>
   activeClusterId (snd (connectToCluster unreachable_env ''b'' example_world)) = Some ''a'' \<and>
   fst (connectToClusterSilently example_env ''b'' example_world) \<and>
   activeClusterId (snd (connectToClusterSilently example_env ''b'' example_world)) = Some ''a'' \<and>
   \<not> fst (connectToClusterSilently unreachable_env ''b'' example_world) \<and>
   activeClusterId (snd (connectToClusterSilently unreachable_env ''b'' example_world)) = Some ''a''"
proof -
  have up: "fst (connectToCluster example_env ''b'' example_world)"
      "fst (connectToClusterSilently example_env ''b'' example_world)"
    by (simp_all add: connect_defs prim_defs example_defs Let_def truthy_def)
  have down: "\<not> fst (connectToCluster unreachable_env ''b'' example_world)"
      "\<not> fst (connectToClusterSilently unreachable_env ''b'' example_world)"
    by (simp_all add: connect_defs prim_defs example_defs Let_def truthy_def)
  have before: "activeClusterId example_world = Some ''a''"
    by (simp add: example_defs)
  show ?thesis
    using connect_active_pointer [of example_env "''b''" example_world]
      connect_active_pointer [of unreachable_env "''b''" example_world] up down
    by (simp add: before truthy_def)
qed

text \<open>
  The claim as stated fails: with the pointer at \<open>a\<close>, a successful interactive connect
  of \<open>b\<close> moves the pointer.
\<close>

theorem connect_moves_pointer_counterexample:
  "activeClusterId example_world = Some ''a'' \<and>
   fst (connectToCluster example_env ''b'' example_world) \<and>
   activeClusterId (snd (connectToCluster example_env ''b'' example_world)) \<noteq> Some ''a''"
  by (simp add: connect_defs prim_defs example_defs Let_def truthy_def)

section \<open>Disabling TLS verification\<close>



text \<open>The add command sets the same process-wide variable when the TLS question is answered \<open>Yes\<close>.\<close>

lemma addClusterPrompts_disableSSL:
  "(case addClusterPrompts en w of
      (None, w') \<Rightarrow> True
    | (Some inp, w') \<Rightarrow>
        (if disableSSL (in_config inp) = Some True
         then NODE_TLS_REJECT_UNAUTHORIZED w' = Some ''0'' \<and>
              ssl_rejectUnauthorized (in_clientOptions inp) = Some False
         else NODE_TLS_REJECT_UNAUTHORIZED w' = NODE_TLS_REJECT_UNAUTHORIZED w))"
proof -
  have endpoint: "NODE_TLS_REJECT_UNAUTHORIZED (snd (promptEndpoint en dt x)) = NODE_TLS_REJECT_UNAUTHORIZED x"
    for dt x
    by (simp add: promptEndpoint_def showInputBox_def prim_defs Let_def split: prod.splits)
  have creds: "NODE_TLS_REJECT_UNAUTHORIZED (snd (promptNewCredentials en am x)) = NODE_TLS_REJECT_UNAUTHORIZED x"
    for am x
    by (simp add: promptNewCredentials_def showInputBox_def prim_defs Let_def split: prod.splits)
  have box: "NODE_TLS_REJECT_UNAUTHORIZED (snd (showInputBox en m x)) = NODE_TLS_REJECT_UNAUTHORIZED x"
      "NODE_TLS_REJECT_UNAUTHORIZED (snd (showQuickPick en m x)) = NODE_TLS_REJECT_UNAUTHORIZED x"
      "NODE_TLS_REJECT_UNAUTHORIZED (tick x) = NODE_TLS_REJECT_UNAUTHORIZED x"
    for m x
    by (simp_all add: showInputBox_def showQuickPick_def prim_defs Let_def)
  show ?thesis
    by (simp add: addClusterPrompts_def Let_def case_prod_beta endpoint creds box
          split: option.splits)
qed


section \<open>Clearing all cluster data\<close>

lemma clearSecretsLoop_secrets:
  "secrets_get (clearSecretsLoop ids w) i f = (if i \<in> set ids then None else secrets_get w i f)"
proof (induction ids arbitrary: w)
  case Nil
  then show ?case by simp
next
  case (Cons a ids)
  have gone: "secrets_get (secrets_delete a ApiKey (secrets_delete a Password
                (secrets_delete a Username (secrets_delete a Config w)))) j f
              = (if j = a then None else secrets_get w j f)" for j
    by (cases f) (simp_all add: prim_defs delete_conv')
  show ?case by (simp add: Cons.IH gone)
qed





section \<open>The health poll\<close>

lemma fetchHealth_trace:
  "trace (fetchHealth en i c w) = trace w @ [HealthQuery i (health_result en (clock w) i c)]"
  by (simp add: fetchHealth_def prim_defs Let_def)

lemma fetchHealth_clock: "clock (fetchHealth en i c w) = clock w + 2"
  by (simp add: fetchHealth_def prim_defs Let_def)

lemma fetchHealth_snapshot:
  "map_of (clusterHealth (fetchHealth en i c w)) j =
     (if j = i then Some (snapshotOf (health_result en (clock w) i c) (date_now en (Suc (clock w))))
      else map_of (clusterHealth w) j)"
  by (simp add: fetchHealth_def prim_defs Let_def update_conv')

lemma refreshLoop_trace:
  "trace (refreshLoop en cs w) = trace w @ tickQueries en cs (clock w)"
  by (induction cs arbitrary: w) (auto simp: fetchHealth_trace fetchHealth_clock)

lemma refreshLoop_clients: "clients (refreshLoop en cs w) = clients w"
  by (induction cs arbitrary: w) (auto simp: fetchHealth_frame)

lemma refreshLoop_other:
  "i \<notin> fst ` set cs \<Longrightarrow>
   map_of (clusterHealth (refreshLoop en cs w)) i = map_of (clusterHealth w) i"
  by (induction cs arbitrary: w) (auto simp: fetchHealth_snapshot)

lemma refreshLoop_snapshot:
  "distinct (map fst cs) \<Longrightarrow> k < length cs \<Longrightarrow> cs ! k = (i, c) \<Longrightarrow>
   map_of (clusterHealth (refreshLoop en cs w)) i
     = Some (snapshotOf (health_result en (clock w + 2 * k) i c)
               (date_now en (Suc (clock w + 2 * k))))"
proof (induction cs arbitrary: w k)
  case Nil
  then show ?case by simp
next
  case (Cons p cs)
  obtain j d where p: "p = (j, d)" by (cases p)
  show ?case
  proof (cases k)
    case 0
    with Cons.prems p have same: "j = i" "d = c" and fresh: "i \<notin> fst ` set cs"
      by auto
    show ?thesis
      using 0 by (simp add: p same refreshLoop_other [OF fresh] fetchHealth_snapshot)
  next
    case (Suc k')
    with Cons.prems p have "distinct (map fst cs)" "k' < length cs" "cs ! k' = (i, c)"
      by auto
    from Cons.IH [OF this, of "fetchHealth en j d w"] show ?thesis
      by (simp add: p Suc fetchHealth_clock)
  qed
qed

lemma tickQueries_member:
  "k < length cs \<Longrightarrow> cs ! k = (i, c) \<Longrightarrow>
   HealthQuery i (health_result en (t + 2 * k) i c) \<in> set (tickQueries en cs t)"
proof (induction cs arbitrary: t k)
  case Nil
  then show ?case by simp
next
  case (Cons p cs)
  obtain j d where p: "p = (j, d)" by (cases p)
  show ?case
  proof (cases k)
    case 0
    with Cons.prems p show ?thesis by simp
  next
    case (Suc k')
    with Cons.prems have "k' < length cs" "cs ! k' = (i, c)" by auto
    from Cons.IH [OF this, of "t + 2"] show ?thesis
      by (simp add: p Suc)
  qed
qed

lemma tickQueries_no_change_event: "TreeDataChanged \<notin> set (tickQueries en cs t)"
  by (induction cs arbitrary: t) auto

text \<open>
  C5. One tick queries every registered id in the order of the registry; the id at
  position \<open>k\<close> is asked at time \<open>clock + 2k\<close>. Whatever the other queries answer, its
  snapshot after the tick is the one made from its own answer: \<open>unknown\<close> when its own
  query failed. The change event is fired once in the tick, after the queries.
\<close>

theorem refreshClusterHealth_per_id:
  assumes "distinct (map fst (clients w))" and "k < length (clients w)"
    and "clients w ! k = (i, c)"
  shows
   "HealthQuery i (health_result en (clock w + 2 * k) i c)
      \<in> set (events_since w (refreshClusterHealth en w)) \<and>
    map_of (clusterHealth (refreshClusterHealth en w)) i
      = Some (snapshotOf (health_result en (clock w + 2 * k) i c)
                (date_now en (Suc (clock w + 2 * k)))) \<and>
    (health_result en (clock w + 2 * k) i c = None \<longrightarrow>
       map_option status (map_of (clusterHealth (refreshClusterHealth en w)) i) = Some ''unknown'') \<and>
    count_list (events_since w (refreshClusterHealth en w)) TreeDataChanged = 1 \<and>
    last (trace (refreshClusterHealth en w)) = TreeDataChanged"
proof -
  have ev: "events_since w (refreshClusterHealth en w)
              = tickQueries en (clients w) (clock w) @ [TreeDataChanged]"
    by (simp add: refreshClusterHealth_def refresh_def emit_def events_since_def refreshLoop_trace)
  have snap: "map_of (clusterHealth (refreshClusterHealth en w)) i
      = Some (snapshotOf (health_result en (clock w + 2 * k) i c)
                (date_now en (Suc (clock w + 2 * k))))"
    using refreshLoop_snapshot [OF assms, of en w]
    by (simp add: refreshClusterHealth_def refresh_def emit_def)
  have cnt: "count_list (tickQueries en (clients w) (clock w)) TreeDataChanged = 0"
    by (simp add: tickQueries_no_change_event)
  have lst: "last (trace (refreshClusterHealth en w)) = TreeDataChanged"
    by (simp add: refreshClusterHealth_def refresh_def emit_def)
  show ?thesis
    using tickQueries_member [OF assms(2,3), of en "clock w"]
    by (simp add: ev snap cnt lst snapshotOf_def unknownHealth_def)
qed

theorem refreshClusterHealth_per_id_witness:
  "distinct (map fst (clients busy_world)) \<and> 1 < length (clients busy_world) \<and>
   clients busy_world ! 1 = (''b'', example_client) \<and>
   clients busy_world ! 0 = (''a'', example_client) \<and>
   health_result example_env (clock busy_world + 2 * 1) ''b'' example_client = None \<and>
   map_option status (map_of (clusterHealth (refreshClusterHealth example_env busy_world)) ''b'')
     = Some ''unknown'' \<and>
   map_option status (map_of (clusterHealth (refreshClusterHealth example_env busy_world)) ''a'')
     = Some ''green'' \<and>
   count_list (events_since busy_world (refreshClusterHealth example_env busy_world)) TreeDataChanged = 1"
  using refreshClusterHealth_per_id [of busy_world 1 "''b''" example_client example_env]
    refreshClusterHealth_per_id [of busy_world 0 "''a''" example_client example_env]
  by (simp add: example_defs snapshotOf_def healthOf_def unknownHealth_def or_str_def)

section \<open>The interactive connect\<close>




section \<open>The add command\<close>

lemma promptForCredentials_config:
  "secrets_get (snd (promptForCredentials en i c w)) j Config = secrets_get w j Config"
  by (simp add: promptForCredentials_def showInputBox_def prim_defs Let_def update_conv'
        split: prod.splits)

lemma promptForCredentials_stored_basic:
  "authMethod c = ''Basic: Username/Password'' \<Longrightarrow>
   truthy (secrets_get w i Username) \<Longrightarrow> truthy (secrets_get w i Password) \<Longrightarrow>
   promptForCredentials en i c w = (True, w)"
  by (simp add: promptForCredentials_def)

lemma promptForCredentials_stored_key:
  "authMethod c = ''API Key'' \<Longrightarrow> truthy (secrets_get w i ApiKey) \<Longrightarrow>
   promptForCredentials en i c w = (True, w)"
  by (simp add: promptForCredentials_def)

lemma connectToCluster_after_prompt:
  assumes "map_of (clusters w) i = Some config"
  shows "clusters (snd (connectToCluster en i w)) = clusters w"
    and "gs_clusterIds (snd (connectToCluster en i w)) = gs_clusterIds w"
    and "secrets (snd (connectToCluster en i w)) = secrets (snd (promptForCredentials en i config w))"
  by (simp_all add: connectToCluster_known [OF assms] Let_def fetchHealth_frame
        promptForCredentials_frame buildClientOptions_world saveConnectedCluster_def
        emit_def tick_def)

lemma addCluster_clients: "clients (addCluster en config w) = clients w"
  by (simp add: addCluster_def saveClusterConfig_def prim_defs Let_def)

lemma storeClusterCredentials_frame:
  "clusters (storeClusterCredentials i m c w) = clusters w"
  "gs_clusterIds (storeClusterCredentials i m c w) = gs_clusterIds w"
  "secrets_get (storeClusterCredentials i m c w) j Config = secrets_get w j Config"
  by (simp_all add: storeClusterCredentials_def secrets_store_opt_def prim_defs update_conv'
        delete_conv' split: option.splits)

lemma addCluster_saved:
  "map_of (clusters (addCluster en config w)) (cid config) = Some config"
  "cid config \<in> set (gs_clusterIds (addCluster en config w))"
  "secrets_get (addCluster en config w) (cid config) Config = Some (JSON_stringify en config)"
  by (simp_all add: addCluster_def saveClusterConfig_def prim_defs Let_def update_conv')

text \<open>
  C2, as the code has it. The add command first pings a temporary client and saves
  only after that test: when the test succeeds the profile is in the profile table, in
  the list of known ids and in the secret store, with the credentials that were
  supplied, whatever the connect that follows does; when the test fails the profile
  table, the list of known ids, the secret store and the registry are as before and
  the failure is shown.
\<close>

theorem addCluster_command_saves_after_test:
  "(let config = in_config inp; i = cid config;
        tested = ping_result en (clock w) i (in_clientOptions inp);
        w' = addClusterTestAndSave en inp w
    in (tested \<longrightarrow>
          map_of (clusters w') i = Some config \<and> i \<in> set (gs_clusterIds w') \<and>
          secrets_get w' i Config = Some (JSON_stringify en config) \<and>
          (\<forall>u p. authMethod config = ''Basic: Username/Password'' \<and>
                 in_credentials inp = Some (BasicAuth u p) \<and> u \<noteq> [] \<and> p \<noteq> [] \<longrightarrow>
                 secrets_get w' i Username = Some u \<and> secrets_get w' i Password = Some p) \<and>
          (\<forall>k. authMethod config = ''API Key'' \<and>
               in_credentials inp = Some (ApiKeyAuth k) \<and> k \<noteq> [] \<longrightarrow>
               secrets_get w' i ApiKey = Some k)) \<and>
       (\<not> tested \<longrightarrow>
          clusters w' = clusters w \<and> gs_clusterIds w' = gs_clusterIds w \<and>
          secrets w' = secrets w \<and> clients w' = clients w \<and>
          last (trace w') = ErrorMessage ''Failed to connect to cluster''))"
proof -
  let ?config = "in_config inp"
  let ?i = "cid ?config"
  let ?tested = "ping_result en (clock w) ?i (in_clientOptions inp)"
  let ?w1 = "tick (emit (Ping ?i (in_clientOptions inp) ?tested) w)"
  let ?w2 = "addCluster en ?config ?w1"
  let ?w3 = "storeClusterCredentials ?i (authMethod ?config) (in_credentials inp) ?w2"
  let ?w4 = "snd (connectToCluster en ?i ?w3)"
  let ?w' = "addClusterTestAndSave en inp w"
  show ?thesis
  proof (cases ?tested)
    case False
    then have "?w' = emit (ErrorMessage ''Failed to connect to cluster'') ?w1"
      by (simp add: addClusterTestAndSave_def Let_def)
    then show ?thesis
      using False by (simp add: Let_def step_fields)
  next
    case True
    then have run: "?w' = refresh (emit (InformationMessage
        (''Successfully added and connected to cluster: '' @ name ?config)) ?w4)"
      by (simp add: addClusterTestAndSave_def Let_def split: prod.splits)
    have known: "map_of (clusters ?w3) ?i = Some ?config"
      by (simp add: storeClusterCredentials_frame addCluster_saved)
    note after = connectToCluster_after_prompt [OF known, of en]
    have table: "map_of (clusters ?w') ?i = Some ?config"
      by (simp add: run after known step_fields)
    have ids: "?i \<in> set (gs_clusterIds ?w')"
      by (simp add: run after storeClusterCredentials_frame addCluster_saved step_fields)
    have sec: "secrets_get ?w' j f = secrets_get (snd (promptForCredentials en ?i ?config ?w3)) j f"
      for j f
      by (simp add: run after step_fields cong: secrets_get_cong)
    have stored: "secrets_get ?w' ?i Config = Some (JSON_stringify en ?config)"
      by (simp add: sec promptForCredentials_config storeClusterCredentials_frame addCluster_saved)
    have basic: "secrets_get ?w' ?i Username = Some u \<and> secrets_get ?w' ?i Password = Some p"
      if "authMethod ?config = ''Basic: Username/Password''"
        and "in_credentials inp = Some (BasicAuth u p)" and "u \<noteq> []" and "p \<noteq> []" for u p
    proof -
      have there: "secrets_get ?w3 ?i Username = Some u" "secrets_get ?w3 ?i Password = Some p"
        using that
        by (simp_all add: storeClusterCredentials_def secrets_store_opt_def cred_username_def
              cred_password_def prim_defs update_conv')
      then have "promptForCredentials en ?i ?config ?w3 = (True, ?w3)"
        using that by (intro promptForCredentials_stored_basic) (simp_all add: truthy_def)
      then show ?thesis
        by (simp add: sec there)
    qed
    have key: "secrets_get ?w' ?i ApiKey = Some k"
      if "authMethod ?config = ''API Key''"
        and "in_credentials inp = Some (ApiKeyAuth k)" and "k \<noteq> []" for k
    proof -
      have there: "secrets_get ?w3 ?i ApiKey = Some k"
        using that
        by (simp add: storeClusterCredentials_def secrets_store_opt_def cred_apiKey_def
              prim_defs update_conv')
      then have "promptForCredentials en ?i ?config ?w3 = (True, ?w3)"
        using that by (intro promptForCredentials_stored_key) (simp_all add: truthy_def)
      then show ?thesis
        by (simp add: sec there)
    qed
    show ?thesis
      unfolding Let_def using True table ids stored basic key by blast
  qed
qed

theorem addCluster_command_saves_after_test_witness:
  "ping_result flaky_env (clock empty_world) ''cluster-1000'' (in_clientOptions add_flow_input) \<and>
   \<not> fst (connectToCluster flaky_env ''cluster-1000''
            (storeClusterCredentials ''cluster-1000'' ''Basic: Username/Password''
               (Some (BasicAuth ''elastic'' ''changeme''))
               (addCluster flaky_env (in_config add_flow_input)
                  (tick (emit (Ping ''cluster-1000'' (in_clientOptions add_flow_input) True)
                     empty_world))))) \<and>
   map_of (clusters (addClusterTestAndSave flaky_env add_flow_input empty_world)) ''cluster-1000''
     = Some (in_config add_flow_input) \<and>
   secrets_get (addClusterTestAndSave flaky_env add_flow_input empty_world) ''cluster-1000'' Password
     = Some ''changeme'' \<and>
   \<not> ping_result unreachable_env (clock empty_world) ''cluster-1000'' (in_clientOptions add_flow_input) \<and>
   secrets (addClusterTestAndSave unreachable_env add_flow_input empty_world) = [] \<and>
   gs_clusterIds (addClusterTestAndSave unreachable_env add_flow_input empty_world) = []"
proof -
  have test: "ping_result flaky_env (clock empty_world) ''cluster-1000'' (in_clientOptions add_flow_input)"
      "\<not> ping_result unreachable_env (clock empty_world) ''cluster-1000'' (in_clientOptions add_flow_input)"
    by (simp_all add: flaky_env_def example_defs)
  have inp: "cid (in_config add_flow_input) = ''cluster-1000''"
      "authMethod (in_config add_flow_input) = ''Basic: Username/Password''"
      "in_credentials add_flow_input = Some (BasicAuth ''elastic'' ''changeme'')"
    by (simp_all add: add_flow_input_def)
  have later: "\<not> fst (connectToCluster flaky_env ''cluster-1000''
            (storeClusterCredentials ''cluster-1000'' ''Basic: Username/Password''
               (Some (BasicAuth ''elastic'' ''changeme''))
               (addCluster flaky_env (in_config add_flow_input)
                  (tick (emit (Ping ''cluster-1000'' (in_clientOptions add_flow_input) True)
                     empty_world)))))"
    by (simp add: connect_defs addCluster_def saveClusterConfig_def storeClusterCredentials_def
          secrets_store_opt_def cred_username_def cred_password_def prim_defs Let_def truthy_def
          add_flow_input_def flaky_env_def example_defs)
  have before: "secrets empty_world = []" "gs_clusterIds empty_world = []"
    by (simp_all add: empty_world_def)
  show ?thesis
    using addCluster_command_saves_after_test [of add_flow_input flaky_env empty_world]
      addCluster_command_saves_after_test [of add_flow_input unreachable_env empty_world]
    by (simp add: Let_def test inp later before)
qed

text \<open>
  The claim as stated fails: a complete add flow with basic authentication, whose
  test probe fails, saves neither the profile nor the credentials.
\<close>

theorem addCluster_command_counterexample:
  "fst (addClusterPrompts add_flow_env empty_world) = Some add_flow_input \<and>
   clusters (addClusterCommand add_flow_env empty_world) = [] \<and>
   gs_clusterIds (addClusterCommand add_flow_env empty_world) = [] \<and>
   secrets (addClusterCommand add_flow_env empty_world) = [] \<and>
   last (trace (addClusterCommand add_flow_env empty_world))
     = ErrorMessage ''Failed to connect to cluster''"
proof -
  have prompts: "addClusterPrompts add_flow_env empty_world =
      (Some add_flow_input,
       empty_world\<lparr>clock := 8,
         trace := [InputBox ''Cluster Name'' (Some ''Local''),
                   QuickPick ''Select Elasticsearch deployment type'' (Some ''Self-managed Cluster''),
                   InputBox ''Full Elasticsearch URL (include protocol and port)''
                     (Some ''http://localhost:9200''),
                   QuickPick ''Select auth method'' (Some ''Basic: Username/Password''),
                   InputBox ''Username'' (Some ''elastic''),
                   InputBox ''Password'' (Some ''changeme''),
                   QuickPick ''Disable SSL certificate verification? (insecure)'' (Some ''No'')]\<rparr>)"
    by (simp add: addClusterPrompts_def promptEndpoint_def promptNewCredentials_def
          showInputBox_def showQuickPick_def prim_defs Let_def truthy_def str_of_def
          show_nat.simps digit_char_def add_flow_env_def add_flow_input_def example_defs)
  have failing: "\<not> ping_result add_flow_env t i c" for t i c
    by (simp add: add_flow_env_def example_defs)
  have cmd: "addClusterCommand add_flow_env empty_world =
      emit (ErrorMessage ''Failed to connect to cluster'')
        (tick (emit (Ping ''cluster-1000'' (in_clientOptions add_flow_input) False)
           (snd (addClusterPrompts add_flow_env empty_world))))"
    by (simp add: addClusterCommand_def prompts addClusterTestAndSave_def Let_def failing
          add_flow_input_def)
  show ?thesis
    unfolding cmd by (simp add: prompts step_fields) (simp add: empty_world_def)
qed

section \<open>Auto-reconnect\<close>

lemma storedAuth_secrets: "secrets w' = secrets w \<Longrightarrow> storedAuth i c w' = storedAuth i c w"
  by (simp add: storedAuth_def secrets_get_def)

lemma buildClientOptions_auth: "auth (fst (buildClientOptions i c w)) = storedAuth i c w"
  by (simp add: buildClientOptions_def Let_def)

lemma removeConnectedCluster_fields:
  "clusters (removeConnectedCluster i w) = clusters w"
  "secrets (removeConnectedCluster i w) = secrets w"
  "trace (removeConnectedCluster i w) = trace w"
  "set (gs_connectedClusters (removeConnectedCluster i w)) = set (gs_connectedClusters w) - {i}"
  by (auto simp: removeConnectedCluster_def)

text \<open>What one silent attempt for a known profile does.\<close>

lemma connectToClusterSilently_step:
  assumes "map_of (clusters w) i = Some config"
  shows "\<exists>e. trace (snd (connectToClusterSilently en i w))
             = trace w @ [Ping i (fst (buildClientOptions i config w))
                            (fst (connectToClusterSilently en i w)), e] \<and>
           \<not> is_prompt e \<and> \<not> ping_ok e"
    and "clusters (snd (connectToClusterSilently en i w)) = clusters w"
    and "secrets (snd (connectToClusterSilently en i w)) = secrets w"
    and "gs_connectedClusters (snd (connectToClusterSilently en i w)) = gs_connectedClusters w"
  by (simp_all add: connectToClusterSilently_known [OF assms] Let_def fetchHealth_frame
        fetchHealth_trace buildClientOptions_world step_fields)

text \<open>What the loop body does for one id, whether its profile is known or not.\<close>

lemma reconnectOne_step:
  "clusters (snd (reconnectOne en i w)) = clusters w \<and>
   secrets (snd (reconnectOne en i w)) = secrets w \<and>
   set (gs_connectedClusters (snd (reconnectOne en i w))) \<subseteq> set (gs_connectedClusters w) \<and>
   (\<not> fst (reconnectOne en i w) \<longrightarrow> i \<notin> set (gs_connectedClusters (snd (reconnectOne en i w)))) \<and>
   (\<exists>evs. trace (snd (reconnectOne en i w)) = trace w @ evs \<and>
          (\<forall>e\<in>set evs. \<not> is_prompt e) \<and>
          length (filter ping_ok evs) = (if fst (reconnectOne en i w) then 1 else 0) \<and>
          (\<forall>j opts b. Ping j opts b \<in> set evs \<longrightarrow> j = i \<and> b = fst (reconnectOne en i w)) \<and>
          (\<forall>config. map_of (clusters w) i = Some config \<longrightarrow>
             (\<exists>opts b. Ping i opts b \<in> set evs \<and> auth opts = storedAuth i config w)))"
proof (cases "map_of (clusters w) i")
  case None
  then have "reconnectOne en i w = (False, removeConnectedCluster i w)"
    by (simp add: reconnectOne_def)
  then show ?thesis
    using None by (auto simp: removeConnectedCluster_fields)
next
  case (Some config)
  note step = connectToClusterSilently_step [OF Some, of en]
  obtain e where tr: "trace (snd (connectToClusterSilently en i w))
             = trace w @ [Ping i (fst (buildClientOptions i config w))
                            (fst (connectToClusterSilently en i w)), e]"
    and quiet: "\<not> is_prompt e" "\<not> ping_ok e"
    using step(1) by blast
  have one: "reconnectOne en i w =
      (fst (connectToClusterSilently en i w),
       if fst (connectToClusterSilently en i w) then snd (connectToClusterSilently en i w)
       else removeConnectedCluster i (snd (connectToClusterSilently en i w)))"
    using Some by (simp add: reconnectOne_def split: prod.splits bool.splits)
  let ?evs = "[Ping i (fst (buildClientOptions i config w))
                 (fst (connectToClusterSilently en i w)), e]"
  have trace_one: "trace (snd (reconnectOne en i w)) = trace w @ ?evs"
    by (simp add: one tr removeConnectedCluster_fields)
  have not_ping: "e \<noteq> Ping j opts b" for j opts b
  proof (cases b)
    case True
    with quiet(2) show ?thesis by auto
  next
    case False
    have "e \<noteq> Ping j opts False"
      using step(1) tr
      by (auto simp: connectToClusterSilently_known [OF Some] Let_def fetchHealth_trace
            step_fields buildClientOptions_world split: if_splits)
    with False show ?thesis by simp
  qed
  have frame: "clusters (snd (reconnectOne en i w)) = clusters w"
      "secrets (snd (reconnectOne en i w)) = secrets w"
      "set (gs_connectedClusters (snd (reconnectOne en i w))) \<subseteq> set (gs_connectedClusters w)"
      "\<not> fst (reconnectOne en i w) \<longrightarrow> i \<notin> set (gs_connectedClusters (snd (reconnectOne en i w)))"
    by (auto simp: one step(2,3,4) removeConnectedCluster_fields)
  have evs_ok: "(\<forall>e\<in>set ?evs. \<not> is_prompt e) \<and>
      length (filter ping_ok ?evs) = (if fst (reconnectOne en i w) then 1 else 0) \<and>
      (\<forall>j opts b. Ping j opts b \<in> set ?evs \<longrightarrow> j = i \<and> b = fst (reconnectOne en i w)) \<and>
      (\<forall>config'. map_of (clusters w) i = Some config' \<longrightarrow>
         (\<exists>opts b. Ping i opts b \<in> set ?evs \<and> auth opts = storedAuth i config' w))"
    using quiet not_ping Some by (auto simp: one buildClientOptions_auth)
  show ?thesis
    using frame trace_one evs_ok by blast
qed

lemma reconnectLoop_inv:
  "reconnectLoop en ids w r f = (w', r', f') \<Longrightarrow>
   clusters w' = clusters w \<and> secrets w' = secrets w \<and>
   set (gs_connectedClusters w') \<subseteq> set (gs_connectedClusters w) \<and>
   (\<exists>evs. trace w' = trace w @ evs \<and>
      (\<forall>e\<in>set evs. \<not> is_prompt e) \<and>
      r' = r + length (filter ping_ok evs) \<and>
      r' + f' = r + f + length ids \<and>
      (\<forall>i\<in>set ids. \<forall>config. map_of (clusters w) i = Some config \<longrightarrow>
         (\<exists>opts b. Ping i opts b \<in> set evs \<and> auth opts = storedAuth i config w)) \<and>
      (\<forall>i opts. Ping i opts False \<in> set evs \<longrightarrow> i \<notin> set (gs_connectedClusters w')))"
proof (induction ids arbitrary: w r f)
  case Nil
  then show ?case by simp
next
  case (Cons i rest)
  let ?ok = "fst (reconnectOne en i w)"
  let ?w1 = "snd (reconnectOne en i w)"
  let ?r1 = "if ?ok then Suc r else r"
  let ?f1 = "if ?ok then f else Suc f"
  have loop: "reconnectLoop en rest ?w1 ?r1 ?f1 = (w', r', f')"
    using Cons.prems by (simp split: prod.splits bool.splits)
  from reconnectOne_step [of en i w]
  obtain evs1 where c1: "clusters ?w1 = clusters w" and s1: "secrets ?w1 = secrets w"
    and sub1: "set (gs_connectedClusters ?w1) \<subseteq> set (gs_connectedClusters w)"
    and drop1: "\<not> ?ok \<longrightarrow> i \<notin> set (gs_connectedClusters ?w1)"
    and tr1: "trace ?w1 = trace w @ evs1"
    and quiet1: "\<forall>e\<in>set evs1. \<not> is_prompt e"
    and count1: "length (filter ping_ok evs1) = (if ?ok then 1 else 0)"
    and own1: "\<forall>j opts b. Ping j opts b \<in> set evs1 \<longrightarrow> j = i \<and> b = ?ok"
    and probe1: "\<forall>config. map_of (clusters w) i = Some config \<longrightarrow>
                   (\<exists>opts b. Ping i opts b \<in> set evs1 \<and> auth opts = storedAuth i config w)"
    by blast
  from Cons.IH [OF loop]
  obtain evs2 where c2: "clusters w' = clusters ?w1" and s2: "secrets w' = secrets ?w1"
    and sub2: "set (gs_connectedClusters w') \<subseteq> set (gs_connectedClusters ?w1)"
    and tr2: "trace w' = trace ?w1 @ evs2"
    and quiet2: "\<forall>e\<in>set evs2. \<not> is_prompt e"
    and count2: "r' = ?r1 + length (filter ping_ok evs2)"
    and total2: "r' + f' = ?r1 + ?f1 + length rest"
    and probe2: "\<forall>j\<in>set rest. \<forall>config. map_of (clusters ?w1) j = Some config \<longrightarrow>
                   (\<exists>opts b. Ping j opts b \<in> set evs2 \<and> auth opts = storedAuth j config ?w1)"
    and drop2: "\<forall>j opts. Ping j opts False \<in> set evs2 \<longrightarrow> j \<notin> set (gs_connectedClusters w')"
    by blast
  have tr: "trace w' = trace w @ (evs1 @ evs2)"
    by (simp add: tr2 tr1)
  have quiet: "\<forall>e\<in>set (evs1 @ evs2). \<not> is_prompt e"
    using quiet1 quiet2 by auto
  have count: "r' = r + length (filter ping_ok (evs1 @ evs2))"
    using count1 count2 by simp
  have total: "r' + f' = r + f + length (i # rest)"
    using total2 by simp
  have probe: "\<exists>opts b. Ping j opts b \<in> set (evs1 @ evs2) \<and> auth opts = storedAuth j config w"
    if "j \<in> set (i # rest)" and "map_of (clusters w) j = Some config" for j config
  proof (cases "j = i")
    case True
    with probe1 that(2) show ?thesis by auto
  next
    case False
    with that(1) have rest: "j \<in> set rest" by simp
    have "map_of (clusters ?w1) j = Some config"
      using that(2) c1 by simp
    with probe2 rest
    obtain opts b where "Ping j opts b \<in> set evs2" "auth opts = storedAuth j config ?w1"
      by blast
    then show ?thesis
      using storedAuth_secrets [OF s1] by auto
  qed
  have dropped: "j \<notin> set (gs_connectedClusters w')"
    if "Ping j opts False \<in> set (evs1 @ evs2)" for j opts
  proof (cases "Ping j opts False \<in> set evs1")
    case True
    with own1 have "j = i" "\<not> ?ok" by auto
    with drop1 sub2 show ?thesis by auto
  next
    case False
    with that have "Ping j opts False \<in> set evs2" by simp
    with drop2 show ?thesis by blast
  qed
  have frame: "clusters w' = clusters w" "secrets w' = secrets w"
      "set (gs_connectedClusters w') \<subseteq> set (gs_connectedClusters w)"
    using c1 c2 s1 s2 sub1 sub2 by auto
  show ?case
    using frame tr quiet count total probe dropped by blast
qed

text \<open>
  The reconnect-set holds every id once: an id is added only when it is not included,
  and removing filters the list.
\<close>

lemma reconnect_set_distinct:
  "distinct (gs_connectedClusters w) \<Longrightarrow> distinct (gs_connectedClusters (saveConnectedCluster i w))"
  "distinct (gs_connectedClusters w) \<Longrightarrow> distinct (gs_connectedClusters (removeConnectedCluster i w))"
  by (simp_all add: saveConnectedCluster_def removeConnectedCluster_def)

text \<open>The registry and the reconnect-set after the loop body for one id.\<close>

lemma reconnectOne_other:
  assumes "j \<noteq> i"
  shows "map_of (clients (snd (reconnectOne en i w))) j = map_of (clients w) j"
    and "j \<in> set (gs_connectedClusters (snd (reconnectOne en i w)))
           \<longleftrightarrow> j \<in> set (gs_connectedClusters w)"
proof -
  have "map_of (clients (snd (reconnectOne en i w))) j = map_of (clients w) j \<and>
        (j \<in> set (gs_connectedClusters (snd (reconnectOne en i w)))
           \<longleftrightarrow> j \<in> set (gs_connectedClusters w))"
  proof (cases "map_of (clusters w) i")
    case None
    then show ?thesis
      using assms by (simp add: reconnectOne_def removeConnectedCluster_def)
  next
    case (Some config)
    show ?thesis
      using assms Some
      by (simp add: reconnectOne_def connectToClusterSilently_known [OF Some] Let_def
            fetchHealth_frame buildClientOptions_world step_fields removeConnectedCluster_def
            update_conv')
  qed
  then show "map_of (clients (snd (reconnectOne en i w))) j = map_of (clients w) j"
    and "j \<in> set (gs_connectedClusters (snd (reconnectOne en i w)))
           \<longleftrightarrow> j \<in> set (gs_connectedClusters w)"
    by simp_all
qed

lemma reconnectOne_known:
  assumes "map_of (clusters w) i = Some config"
  shows "\<exists>e. trace (snd (reconnectOne en i w))
             = trace w @ [Ping i (fst (buildClientOptions i config w)) (fst (reconnectOne en i w)), e] \<and>
           \<not> is_ping e"
    and "fst (reconnectOne en i w) \<longrightarrow>
           map_of (clients (snd (reconnectOne en i w))) i = Some (fst (buildClientOptions i config w)) \<and>
           gs_connectedClusters (snd (reconnectOne en i w)) = gs_connectedClusters w"
    and "\<not> fst (reconnectOne en i w) \<longrightarrow>
           map_of (clients (snd (reconnectOne en i w))) i = map_of (clients w) i \<and>
           i \<notin> set (gs_connectedClusters (snd (reconnectOne en i w)))"
  using assms
  by (simp_all add: reconnectOne_def connectToClusterSilently_known [OF assms] Let_def
        fetchHealth_frame fetchHealth_trace buildClientOptions_world step_fields
        removeConnectedCluster_def update_conv')

text \<open>An id that is not in the list is not probed and keeps its handle and its membership.\<close>

lemma reconnectLoop_other:
  "reconnectLoop en ids w r f = (w', r', f') \<Longrightarrow> i \<notin> set ids \<Longrightarrow>
   map_of (clients w') i = map_of (clients w) i \<and>
   (i \<in> set (gs_connectedClusters w') \<longleftrightarrow> i \<in> set (gs_connectedClusters w)) \<and>
   (\<exists>evs. trace w' = trace w @ evs \<and> (\<forall>opts b. Ping i opts b \<notin> set evs))"
proof (induction ids arbitrary: w r f)
  case Nil
  then show ?case by simp
next
  case (Cons j rest)
  let ?ok = "fst (reconnectOne en j w)"
  let ?w1 = "snd (reconnectOne en j w)"
  have loop: "reconnectLoop en rest ?w1 (if ?ok then Suc r else r) (if ?ok then f else Suc f)
                = (w', r', f')"
    using Cons.prems(1) by (simp split: prod.splits bool.splits)
  have other: "i \<noteq> j" "i \<notin> set rest"
    using Cons.prems(2) by auto
  from reconnectOne_step [of en j w]
  obtain evs1 where tr1: "trace ?w1 = trace w @ evs1"
    and own1: "\<forall>k opts b. Ping k opts b \<in> set evs1 \<longrightarrow> k = j \<and> b = ?ok"
    by blast
  from Cons.IH [OF loop other(2)]
  obtain evs2 where rest: "map_of (clients w') i = map_of (clients ?w1) i"
      "i \<in> set (gs_connectedClusters w') \<longleftrightarrow> i \<in> set (gs_connectedClusters ?w1)"
      "trace w' = trace ?w1 @ evs2" "\<forall>opts b. Ping i opts b \<notin> set evs2"
    by blast
  have tr: "trace w' = trace w @ (evs1 @ evs2)"
    by (simp add: rest(3) tr1)
  have silent: "\<forall>opts b. Ping i opts b \<notin> set (evs1 @ evs2)"
    using own1 rest(4) other(1) by auto
  note step = reconnectOne_other [OF other(1), of en w]
  have handle: "map_of (clients w') i = map_of (clients w) i"
    using rest(1) step(1) by simp
  have member: "i \<in> set (gs_connectedClusters w') \<longleftrightarrow> i \<in> set (gs_connectedClusters w)"
    using rest(2) step(2) by simp
  have events: "\<exists>evs. trace w' = trace w @ evs \<and> (\<forall>opts b. Ping i opts b \<notin> set evs)"
    using tr silent by (intro exI [of _ "evs1 @ evs2"] conjI)
  show ?case
    using handle member events by (intro conjI)
qed

text \<open>
  An id that is once in the list and whose profile is known is probed exactly once; on
  success its handle is the client that was probed and its membership in the
  reconnect-set is as before, on failure it is out of the reconnect-set and its entry of
  the registry is as before.
\<close>

lemma reconnectLoop_own:
  "reconnectLoop en ids w r f = (w', r', f') \<Longrightarrow> distinct ids \<Longrightarrow> i \<in> set ids \<Longrightarrow>
   map_of (clusters w) i = Some config \<Longrightarrow>
   \<exists>evs opts b. trace w' = trace w @ evs \<and> Ping i opts b \<in> set evs \<and>
      (\<forall>opts' b'. Ping i opts' b' \<in> set evs \<longrightarrow> opts' = opts \<and> b' = b) \<and>
      auth opts = storedAuth i config w \<and>
      (b \<longrightarrow> map_of (clients w') i = Some opts \<and>
             (i \<in> set (gs_connectedClusters w') \<longleftrightarrow> i \<in> set (gs_connectedClusters w))) \<and>
      (\<not> b \<longrightarrow> map_of (clients w') i = map_of (clients w) i \<and>
               i \<notin> set (gs_connectedClusters w'))"
proof (induction ids arbitrary: w r f)
  case Nil
  then show ?case by simp
next
  case (Cons j rest)
  let ?ok = "fst (reconnectOne en j w)"
  let ?w1 = "snd (reconnectOne en j w)"
  have loop: "reconnectLoop en rest ?w1 (if ?ok then Suc r else r) (if ?ok then f else Suc f)
                = (w', r', f')"
    using Cons.prems(1) by (simp split: prod.splits bool.splits)
  have fresh: "j \<notin> set rest" and rest_distinct: "distinct rest"
    using Cons.prems(2) by auto
  show ?case
  proof (cases "i = j")
    case True
    let ?opts = "fst (buildClientOptions i config w)"
    from reconnectOne_known [OF Cons.prems(4), of en]
    obtain e where tr1: "trace (snd (reconnectOne en i w))
                           = trace w @ [Ping i ?opts (fst (reconnectOne en i w)), e]"
      and quiet: "\<not> is_ping e"
      and up: "fst (reconnectOne en i w) \<longrightarrow>
           map_of (clients (snd (reconnectOne en i w))) i = Some ?opts \<and>
           gs_connectedClusters (snd (reconnectOne en i w)) = gs_connectedClusters w"
      and down: "\<not> fst (reconnectOne en i w) \<longrightarrow>
           map_of (clients (snd (reconnectOne en i w))) i = map_of (clients w) i \<and>
           i \<notin> set (gs_connectedClusters (snd (reconnectOne en i w)))"
      by blast
    have not_ping: "e \<noteq> Ping k opts b" for k opts b
      using quiet by auto
    from reconnectLoop_other [OF loop] fresh True
    obtain evs2 where rest: "map_of (clients w') i = map_of (clients (snd (reconnectOne en i w))) i"
        "i \<in> set (gs_connectedClusters w')
           \<longleftrightarrow> i \<in> set (gs_connectedClusters (snd (reconnectOne en i w)))"
        "trace w' = trace (snd (reconnectOne en i w)) @ evs2"
        "\<forall>opts b. Ping i opts b \<notin> set evs2"
      by blast
    let ?evs = "[Ping i ?opts (fst (reconnectOne en i w)), e] @ evs2"
    have tr: "trace w' = trace w @ ?evs"
      by (simp add: rest(3) tr1)
    have only: "\<forall>opts' b'. Ping i opts' b' \<in> set ?evs \<longrightarrow>
                  opts' = ?opts \<and> b' = fst (reconnectOne en i w)"
      using not_ping rest(4) by auto
    have inside: "Ping i ?opts (fst (reconnectOne en i w)) \<in> set ?evs"
      by simp
    have outcome: "(fst (reconnectOne en i w) \<longrightarrow> map_of (clients w') i = Some ?opts \<and>
             (i \<in> set (gs_connectedClusters w') \<longleftrightarrow> i \<in> set (gs_connectedClusters w))) \<and>
        (\<not> fst (reconnectOne en i w) \<longrightarrow> map_of (clients w') i = map_of (clients w) i \<and>
               i \<notin> set (gs_connectedClusters w'))"
      using up down rest(1,2) by auto
    have cred: "auth ?opts = storedAuth i config w"
      by (rule buildClientOptions_auth)
    show ?thesis
      using tr inside only cred outcome
      by (intro exI [of _ ?evs] exI [of _ ?opts] exI [of _ "fst (reconnectOne en i w)"] conjI)
         blast+
  next
    case False
    with Cons.prems(3) have later: "i \<in> set rest" by simp
    from reconnectOne_step [of en j w]
    obtain evs1 where c1: "clusters ?w1 = clusters w" and s1: "secrets ?w1 = secrets w"
      and tr1: "trace ?w1 = trace w @ evs1"
      and own1: "\<forall>k opts b. Ping k opts b \<in> set evs1 \<longrightarrow> k = j \<and> b = ?ok"
      by blast
    have known1: "map_of (clusters ?w1) i = Some config"
      using Cons.prems(4) c1 by simp
    from Cons.IH [OF loop rest_distinct later known1]
    obtain evs2 opts b where ih: "trace w' = trace ?w1 @ evs2" "Ping i opts b \<in> set evs2"
        "\<forall>opts' b'. Ping i opts' b' \<in> set evs2 \<longrightarrow> opts' = opts \<and> b' = b"
        "auth opts = storedAuth i config ?w1"
        "b \<longrightarrow> map_of (clients w') i = Some opts \<and>
             (i \<in> set (gs_connectedClusters w') \<longleftrightarrow> i \<in> set (gs_connectedClusters ?w1))"
        "\<not> b \<longrightarrow> map_of (clients w') i = map_of (clients ?w1) i \<and>
               i \<notin> set (gs_connectedClusters w')"
      by blast
    note step = reconnectOne_other [OF False, of en w]
    have tr: "trace w' = trace w @ (evs1 @ evs2)"
      by (simp add: ih(1) tr1)
    have inside: "Ping i opts b \<in> set (evs1 @ evs2)"
      using ih(2) by simp
    have only: "\<forall>opts' b'. Ping i opts' b' \<in> set (evs1 @ evs2) \<longrightarrow> opts' = opts \<and> b' = b"
      using own1 ih(3) False by auto
    have cred: "auth opts = storedAuth i config w"
      using ih(4) storedAuth_secrets [OF s1] by simp
    have outcome: "(b \<longrightarrow> map_of (clients w') i = Some opts \<and>
             (i \<in> set (gs_connectedClusters w') \<longleftrightarrow> i \<in> set (gs_connectedClusters w))) \<and>
        (\<not> b \<longrightarrow> map_of (clients w') i = map_of (clients w) i \<and>
               i \<notin> set (gs_connectedClusters w'))"
      using ih(5,6) step by auto
    show ?thesis
      using tr inside only cred outcome
      by (intro exI [of _ "evs1 @ evs2"] exI [of _ opts] exI [of _ b] conjI)
         blast+
  qed
qed

text \<open>
  C3, as the code has it. The auto-reconnect never prompts. For an id that the
  reconnect-set holds once and whose profile needs credentials that are not in the
  secret store, the silent attempt is still made: exactly one probe is issued for the
  id, with client options that carry no authentication. When the probe succeeds, the
  probed client is installed as the handle of the id and the id stays in the
  reconnect-set; when it fails, the id is no longer in the reconnect-set and its entry
  of the registry is as before. The last thing the auto-reconnect does is to show one
  message with the number \<open>r\<close> of successful probes and the number \<open>f\<close> of failures,
  which together are the size of the reconnect-set.
\<close>

theorem autoReconnect_missing_credentials:
  assumes "distinct (gs_connectedClusters w)"
    and "i \<in> set (gs_connectedClusters w)" and "map_of (clusters w) i = Some config"
    and "authMethod config = ''Basic: Username/Password'' \<or> authMethod config = ''API Key''"
    and "storedAuth i config w = None"
  shows
   "(let w' = autoReconnectClusters en w; evs = events_since w w'
     in (\<forall>e\<in>set evs. \<not> is_prompt e) \<and>
        (\<exists>opts b. Ping i opts b \<in> set evs \<and>
           (\<forall>opts' b'. Ping i opts' b' \<in> set evs \<longrightarrow> opts' = opts \<and> b' = b) \<and>
           auth opts = None \<and>
           (b \<longrightarrow> map_of (clients w') i = Some opts \<and> i \<in> set (gs_connectedClusters w')) \<and>
           (\<not> b \<longrightarrow> map_of (clients w') i = map_of (clients w) i \<and>
                    i \<notin> set (gs_connectedClusters w'))) \<and>
        (\<forall>opts. Ping i opts False \<in> set evs \<longrightarrow> i \<notin> set (gs_connectedClusters w')) \<and>
        (\<exists>r f. r = length (filter ping_ok evs) \<and> r + f = length (gs_connectedClusters w) \<and>
               last (trace w') = (if 0 < f then WarningMessage (reconnectMessage r f)
                                  else InformationMessage (reconnectMessage r f))))"
proof -
  obtain w1 r f where loop: "reconnectLoop en (gs_connectedClusters w) w 0 0 = (w1, r, f)"
    by (cases "reconnectLoop en (gs_connectedClusters w) w 0 0") auto
  from reconnectLoop_inv [OF loop]
  obtain evs where tr: "trace w1 = trace w @ evs"
    and quiet: "\<forall>e\<in>set evs. \<not> is_prompt e"
    and count: "r = length (filter ping_ok evs)"
    and total: "r + f = length (gs_connectedClusters w)"
    and dropped: "\<forall>j opts. Ping j opts False \<in> set evs \<longrightarrow> j \<notin> set (gs_connectedClusters w1)"
    by auto
  from reconnectLoop_own [OF loop assms(1,2,3)]
  obtain evs' opts b where tr': "trace w1 = trace w @ evs'"
    and own: "Ping i opts b \<in> set evs'"
      "\<forall>opts' b'. Ping i opts' b' \<in> set evs' \<longrightarrow> opts' = opts \<and> b' = b"
      "auth opts = storedAuth i config w"
      "b \<longrightarrow> map_of (clients w1) i = Some opts \<and>
             (i \<in> set (gs_connectedClusters w1) \<longleftrightarrow> i \<in> set (gs_connectedClusters w))"
      "\<not> b \<longrightarrow> map_of (clients w1) i = map_of (clients w) i \<and>
               i \<notin> set (gs_connectedClusters w1)"
    by blast
  have same: "evs' = evs"
    using tr tr' by simp
  define msg where "msg = (if 0 < f then WarningMessage (reconnectMessage r f)
                            else InformationMessage (reconnectMessage r f))"
  have msg_kind: "\<not> is_prompt msg" "\<not> ping_ok msg" "msg \<noteq> Ping j opts b" for j opts b
    by (simp_all add: msg_def)
  have some: "gs_connectedClusters w \<noteq> []"
    using assms(2) by auto
  then have counted: "0 < r \<or> 0 < f"
    using total by (cases "gs_connectedClusters w") auto
  have run: "autoReconnectClusters en w = emit msg w1"
    using some counted by (simp add: autoReconnectClusters_def Let_def loop msg_def)
  have ev: "events_since w (autoReconnectClusters en w) = evs @ [msg]"
    by (simp add: run events_since_def emit_fields tr)
  have set_after: "gs_connectedClusters (autoReconnectClusters en w) = gs_connectedClusters w1"
    by (simp add: run emit_fields)
  have handles_after: "clients (autoReconnectClusters en w) = clients w1"
    by (simp add: run emit_fields)
  have last_msg: "last (trace (autoReconnectClusters en w)) = msg"
    by (simp add: run emit_fields)
  have p1: "\<forall>e\<in>set (evs @ [msg]). \<not> is_prompt e"
    using quiet msg_kind(1) by simp
  have q1: "Ping i opts b \<in> set (evs @ [msg])"
    using own(1) same by simp
  have q2: "\<forall>opts' b'. Ping i opts' b' \<in> set (evs @ [msg]) \<longrightarrow> opts' = opts \<and> b' = b"
    using own(2) same msg_kind(3) [symmetric] by auto
  have q3: "auth opts = None"
    using own(3) assms(5) by simp
  have q4: "b \<longrightarrow> map_of (clients w1) i = Some opts \<and> i \<in> set (gs_connectedClusters w1)"
    using own(4) assms(2) by simp
  have p2: "\<exists>opts b. Ping i opts b \<in> set (evs @ [msg]) \<and>
           (\<forall>opts' b'. Ping i opts' b' \<in> set (evs @ [msg]) \<longrightarrow> opts' = opts \<and> b' = b) \<and>
           auth opts = None \<and>
           (b \<longrightarrow> map_of (clients w1) i = Some opts \<and> i \<in> set (gs_connectedClusters w1)) \<and>
           (\<not> b \<longrightarrow> map_of (clients w1) i = map_of (clients w) i \<and>
                    i \<notin> set (gs_connectedClusters w1))"
    using q1 q2 q3 q4 own(5) by (intro exI [of _ opts] exI [of _ b] conjI)
  have p3: "\<forall>opts. Ping i opts False \<in> set (evs @ [msg]) \<longrightarrow> i \<notin> set (gs_connectedClusters w1)"
    using dropped msg_kind(3) [symmetric] by auto
  have p4: "length (filter ping_ok (evs @ [msg])) = r"
    using count msg_kind(2) by simp
  have p5: "\<exists>r' f'. r' = length (filter ping_ok (evs @ [msg])) \<and>
              r' + f' = length (gs_connectedClusters w) \<and>
              msg = (if 0 < f' then WarningMessage (reconnectMessage r' f')
                     else InformationMessage (reconnectMessage r' f'))"
    using p4 total by (intro exI [of _ r] exI [of _ f]) (simp add: msg_def)
  show ?thesis
    unfolding Let_def ev set_after handles_after last_msg
    using p1 p2 p3 p5 by (intro conjI)
qed

theorem autoReconnect_missing_credentials_witness:
  "distinct (gs_connectedClusters restart_world) \<and>
   ''c'' \<in> set (gs_connectedClusters restart_world) \<and>
   map_of (clusters restart_world) ''c'' = Some (example_config ''c'' ''Basic: Username/Password'' None) \<and>
   authMethod (example_config ''c'' ''Basic: Username/Password'' None) = ''Basic: Username/Password'' \<and>
   storedAuth ''c'' (example_config ''c'' ''Basic: Username/Password'' None) restart_world = None \<and>
   Ping ''c'' example_client False \<in> set (events_since restart_world (autoReconnectClusters only_a_env restart_world)) \<and>
   ''c'' \<notin> set (gs_connectedClusters (autoReconnectClusters only_a_env restart_world)) \<and>
   map_of (clients (autoReconnectClusters only_a_env restart_world)) ''c'' = None \<and>
   last (trace (autoReconnectClusters only_a_env restart_world))
     = WarningMessage ''Auto-reconnected 1 cluster(s). 1 cluster(s) failed to reconnect.'' \<and>
   Ping ''c'' example_client True \<in> set (events_since restart_world (autoReconnectClusters example_env restart_world)) \<and>
   ''c'' \<in> set (gs_connectedClusters (autoReconnectClusters example_env restart_world)) \<and>
   map_of (clients (autoReconnectClusters example_env restart_world)) ''c'' = Some example_client"
proof -
  have once: "distinct (gs_connectedClusters restart_world)"
    and member: "''c'' \<in> set (gs_connectedClusters restart_world)"
    and known: "map_of (clusters restart_world) ''c''
                  = Some (example_config ''c'' ''Basic: Username/Password'' None)"
    and unconnected: "map_of (clients restart_world) ''c'' = None"
    by (simp_all add: restart_world_def example_defs)
  have needs: "authMethod (example_config ''c'' ''Basic: Username/Password'' None)
                  = ''Basic: Username/Password''"
    by (simp add: example_config_def)
  have absent: "storedAuth ''c'' (example_config ''c'' ''Basic: Username/Password'' None) restart_world = None"
    by (simp add: storedAuth_def secrets_get_def truthy_def restart_world_def example_defs)
  have run: "autoReconnectClusters only_a_env restart_world =
      restart_world
        \<lparr>clients := [(''a'', example_client)],
         clusterHealth := [(''a'', green_snapshot\<lparr>lastChecked := 1002\<rparr>)],
         gs_connectedClusters := [''a''], clock := 4,
         trace := [Ping ''a'' example_client True,
                   HealthQuery ''a'' (Some \<lparr>r_status = Some ''green'', r_cluster_name = Some ''es'',
                      r_number_of_nodes = Some 3, r_number_of_data_nodes = Some 2,
                      r_active_primary_shards = Some 5, r_active_shards = Some 10\<rparr>),
                   Ping ''c'' example_client False,
                   ConsoleLog ''[ESExt] Silent reconnect failed for cluster'',
                   WarningMessage ''Auto-reconnected 1 cluster(s). 1 cluster(s) failed to reconnect.'']\<rparr>"
    by (simp add: autoReconnectClusters_def reconnectOne_def removeConnectedCluster_def
          connect_defs prim_defs Let_def truthy_def snapshotOf_def healthOf_def or_str_def
          or_zero_def reconnectMessage_def show_nat.simps digit_char_def
          only_a_env_def restart_world_def example_defs)
  have run_up: "trace (autoReconnectClusters example_env restart_world) =
         [Ping ''a'' example_client True,
          HealthQuery ''a'' (Some \<lparr>r_status = Some ''green'', r_cluster_name = Some ''es'',
             r_number_of_nodes = Some 3, r_number_of_data_nodes = Some 2,
             r_active_primary_shards = Some 5, r_active_shards = Some 10\<rparr>),
          Ping ''c'' example_client True,
          HealthQuery ''c'' (Some \<lparr>r_status = Some ''green'', r_cluster_name = Some ''es'',
             r_number_of_nodes = Some 3, r_number_of_data_nodes = Some 2,
             r_active_primary_shards = Some 5, r_active_shards = Some 10\<rparr>),
          InformationMessage ''Auto-reconnected 2 cluster(s).'']"
    by (simp add: autoReconnectClusters_def reconnectOne_def removeConnectedCluster_def
          connect_defs prim_defs Let_def truthy_def snapshotOf_def healthOf_def or_str_def
          or_zero_def reconnectMessage_def show_nat.simps digit_char_def
          restart_world_def example_defs)
  have ev: "events_since restart_world x = trace x" for x
    by (simp add: events_since_def restart_world_def example_defs)
  have probe: "Ping ''c'' example_client False
      \<in> set (events_since restart_world (autoReconnectClusters only_a_env restart_world))"
    unfolding ev by (simp add: run)
  have probe_up: "Ping ''c'' example_client True
      \<in> set (events_since restart_world (autoReconnectClusters example_env restart_world))"
    unfolding ev by (simp add: run_up)
  have shown: "last (trace (autoReconnectClusters only_a_env restart_world))
     = WarningMessage ''Auto-reconnected 1 cluster(s). 1 cluster(s) failed to reconnect.''"
    by (simp add: run)
  from autoReconnect_missing_credentials [OF once member known _ absent, of only_a_env] needs probe
  have down: "''c'' \<notin> set (gs_connectedClusters (autoReconnectClusters only_a_env restart_world))"
      "map_of (clients (autoReconnectClusters only_a_env restart_world)) ''c'' = None"
    unfolding Let_def using unconnected by metis+
  from autoReconnect_missing_credentials [OF once member known _ absent, of example_env] needs probe_up
  have up: "''c'' \<in> set (gs_connectedClusters (autoReconnectClusters example_env restart_world))"
      "map_of (clients (autoReconnectClusters example_env restart_world)) ''c'' = Some example_client"
    unfolding Let_def by metis+
  show ?thesis
    by (intro conjI once member known needs absent probe down shown probe_up up)
qed

text \<open>
  The claim as stated fails: \<open>c\<close> needs basic authentication and has no credentials
  stored, yet the auto-reconnect probes it, and when the probe is answered \<open>c\<close> is
  connected and stays in the reconnect-set.
\<close>

theorem autoReconnect_probes_without_credentials_counterexample:
  "''c'' \<in> set (gs_connectedClusters restart_world) \<and>
   storedAuth ''c'' (example_config ''c'' ''Basic: Username/Password'' None) restart_world = None \<and>
   Ping ''c'' example_client True \<in> set (trace (autoReconnectClusters example_env restart_world)) \<and>
   map_of (clients (autoReconnectClusters example_env restart_world)) ''c'' = Some example_client \<and>
   ''c'' \<in> set (gs_connectedClusters (autoReconnectClusters example_env restart_world))"
proof -
  have absent: "storedAuth ''c'' (example_config ''c'' ''Basic: Username/Password'' None) restart_world = None"
    by (simp add: storedAuth_def secrets_get_def truthy_def restart_world_def example_defs)
  have run: "autoReconnectClusters example_env restart_world =
      restart_world
        \<lparr>clients := [(''a'', example_client), (''c'', example_client)],
         clusterHealth := [(''a'', green_snapshot\<lparr>lastChecked := 1002\<rparr>),
                           (''c'', green_snapshot\<lparr>lastChecked := 1005\<rparr>)],
         clock := 6,
         trace := [Ping ''a'' example_client True,
                   HealthQuery ''a'' (Some \<lparr>r_status = Some ''green'', r_cluster_name = Some ''es'',
                      r_number_of_nodes = Some 3, r_number_of_data_nodes = Some 2,
                      r_active_primary_shards = Some 5, r_active_shards = Some 10\<rparr>),
                   Ping ''c'' example_client True,
                   HealthQuery ''c'' (Some \<lparr>r_status = Some ''green'', r_cluster_name = Some ''es'',
                      r_number_of_nodes = Some 3, r_number_of_data_nodes = Some 2,
                      r_active_primary_shards = Some 5, r_active_shards = Some 10\<rparr>),
                   InformationMessage ''Auto-reconnected 2 cluster(s).'']\<rparr>"
    by (simp add: autoReconnectClusters_def reconnectOne_def removeConnectedCluster_def
          connect_defs prim_defs Let_def truthy_def snapshotOf_def healthOf_def or_str_def
          or_zero_def reconnectMessage_def show_nat.simps digit_char_def
          restart_world_def example_defs)
  show ?thesis
    unfolding run using absent by (simp add: restart_world_def example_defs)
qed

section \<open>Import\<close>

text \<open>The steps of the loop, by the entry at the head of the array.\<close>

lemma importLoop_null: "importLoop en (None # rest) w n k = Thrown w"
  by simp

lemma importLoop_skip:
  "\<not> entry_complete e \<Longrightarrow>
   importLoop en (Some e # rest) w n k
     = importLoop en rest (emit (ConsoleLog ''[ESExt] Skipping invalid cluster'') w) n (Suc k)"
  by simp

lemma importLoop_new:
  "entry_complete e \<Longrightarrow> find (\<lambda>c. name c = str_of (e_name e)) (map snd (clusters w)) = None \<Longrightarrow>
   importLoop en (Some e # rest) w n k = importLoop en rest (importOne en e w) (Suc n) k"
  by simp

lemma importLoop_cancel:
  assumes "entry_complete e"
    and "find (\<lambda>c. name c = str_of (e_name e)) (map snd (clusters w)) \<noteq> None"
    and "pick_answer en (clock w) = Some ''Cancel''"
  shows "\<exists>w1. importLoop en (Some e # rest) w n k = Summary w1 n k \<and> clusters w1 = clusters w \<and>
              secrets w1 = secrets w \<and> gs_clusterIds w1 = gs_clusterIds w"
  using assms by (auto simp: showQuickPick_def Let_def step_fields emit_def tick_def)

text \<open>
  Importing one entry: the profile is in the profile table under the generated id, the
  id is in the persisted list of known ids and the configuration is in the secret store.
\<close>

lemma importOne_effect:
  "map_of (clusters (importOne en e w)) (fst (generateClusterId en w))
     = Some \<lparr>cid = fst (generateClusterId en w), name = str_of (e_name e),
             deploymentType = str_of (e_deploymentType e), nodeUrl = e_nodeUrl e,
             cloudId = e_cloudId e, authMethod = str_of (e_authMethod e),
             disableSSL = e_disableSSL e\<rparr>"
  "fst (generateClusterId en w) \<in> set (gs_clusterIds (importOne en e w))"
  "secrets_get (importOne en e w) (fst (generateClusterId en w)) Config \<noteq> None"
  by (simp_all add: importOne_def generateClusterId_def addCluster_def saveClusterConfig_def
        prim_defs Let_def update_conv')

text \<open>
  The loop throws on an array only when the array has a \<open>null\<close> element, and then the
  command shows the failure and no summary.
\<close>

lemma importLoop_thrown: "importLoop en es w n k = Thrown w' \<Longrightarrow> None \<in> set es"
proof (induction es arbitrary: w n k)
  case Nil
  then show ?case by simp
next
  case (Cons x rest)
  show ?case
  proof (cases x)
    case None
    then show ?thesis by simp
  next
    case (Some e)
    with Cons.prems Cons.IH show ?thesis
      by (auto simp: Let_def split: if_splits option.splits prod.splits)
  qed
qed

lemma importClusters_null:
  assumes "import_read en (clock w) = ClusterArray (None # rest)"
  shows "importClusters en w = importFailed (tick w)"
  using assms by (simp add: importClusters_def Let_def)

text \<open>
  A run on an array without \<open>null\<close> ends with the counters. It has processed a prefix
  of \<open>p\<close> entries, each of which is counted as imported or skipped: the incomplete ones
  among them are all counted as skipped and none of them is imported, and when \<open>p\<close> is
  less than the length of the array the entry at \<open>p\<close> is the complete entry at which the
  run was cancelled.
\<close>

lemma importLoop_counts:
  "importLoop en (map Some es) w n k = Summary w' n' k' \<Longrightarrow>
   \<exists>p\<le>length es. n' + k' = n + k + p \<and>
      n' \<le> n + length (filter entry_complete (take p es)) \<and>
      k + length (filter (\<lambda>x. \<not> entry_complete x) (take p es)) \<le> k' \<and>
      (p < length es \<longrightarrow> entry_complete (es ! p))"
proof (induction es arbitrary: w n k)
  case Nil
  then show ?case by simp
next
  case (Cons e rest)
  have continue: ?case
    if run: "importLoop en (map Some rest) w1 n1 k1 = Summary w' n' k'"
      and step: "(n1 = Suc n \<and> k1 = k \<and> entry_complete e) \<or> (n1 = n \<and> k1 = Suc k)"
    for w1 n1 k1
  proof -
    from Cons.IH [OF run]
    obtain p where p: "p \<le> length rest" "n' + k' = n1 + k1 + p"
        "n' \<le> n1 + length (filter entry_complete (take p rest))"
        "k1 + length (filter (\<lambda>x. \<not> entry_complete x) (take p rest)) \<le> k'"
        "p < length rest \<longrightarrow> entry_complete (rest ! p)"
      by blast
    show ?thesis
      using p step by (intro exI [of _ "Suc p"]) auto
  qed
  show ?case
  proof (cases "entry_complete e")
    case False
    with Cons.prems show ?thesis
      by (intro continue) auto
  next
    case complete: True
    show ?thesis
    proof (cases "find (\<lambda>c. name c = str_of (e_name e)) (map snd (clusters w))")
      case None
      with Cons.prems complete show ?thesis
        by (intro continue) auto
    next
      case (Some existing)
      let ?ask = "showQuickPick en
        (''Cluster '' @ [CHR 0x22] @ str_of (e_name e) @ [CHR 0x22]
           @ '' already exists. Do you want to overwrite it?'') w"
      consider (cancel) "fst ?ask = Some ''Cancel''"
        | (no) "fst ?ask \<noteq> Some ''Cancel''" "fst ?ask = Some ''No''"
        | (yes) "fst ?ask \<noteq> Some ''Cancel''" "fst ?ask \<noteq> Some ''No''"
        by blast
      then show ?thesis
      proof cases
        case cancel
        with Cons.prems complete Some have "n' = n" "k' = k"
          by (auto simp: Let_def split: prod.splits)
        then show ?thesis
          using complete by (intro exI [of _ 0]) simp
      next
        case no
        with Cons.prems complete Some show ?thesis
          by (intro continue [of "snd ?ask" n "Suc k"]) (auto simp: Let_def split: prod.splits)
      next
        case yes
        with Cons.prems complete Some show ?thesis
          by (intro continue [of "importOne en e (removeCluster (cid existing) (snd ?ask))"
                "Suc n" k])
            (auto simp: Let_def split: prod.splits)
      qed
    qed
  qed
qed

text \<open>
  A property of the state that the steps of the loop keep is kept by the loop, however
  it ends. The steps are: logging a skipped entry, asking the collision question,
  removing the profile that is overwritten, and importing one entry.
\<close>

lemma importLoop_preserves:
  assumes emit: "\<And>x ev. P x \<Longrightarrow> P (emit ev x)"
    and tick: "\<And>x. P x \<Longrightarrow> P (tick x)"
    and remove: "\<And>x i. P x \<Longrightarrow> P (removeCluster i x)"
    and import: "\<And>x e. P x \<Longrightarrow> P (importOne en e x)"
  shows "P w \<Longrightarrow> P (world_of (importLoop en es w n k))"
proof (induction es arbitrary: w n k)
  case Nil
  then show ?case by simp
next
  case (Cons x rest)
  have asked: "P (snd (showQuickPick en m w))" for m
    using Cons.prems by (simp add: showQuickPick_def Let_def emit tick)
  show ?case
  proof (cases x)
    case None
    with Cons.prems show ?thesis by simp
  next
    case head: (Some e)
    show ?thesis
    proof (cases "entry_complete e")
      case False
      with head Cons.IH [OF emit [OF Cons.prems]] show ?thesis
        by simp
    next
      case complete: True
      show ?thesis
      proof (cases "find (\<lambda>c. name c = str_of (e_name e)) (map snd (clusters w))")
        case None
        with head complete Cons.IH [OF import [OF Cons.prems]] show ?thesis
          by simp
      next
        case (Some existing)
        let ?ask = "showQuickPick en
          (''Cluster '' @ [CHR 0x22] @ str_of (e_name e) @ [CHR 0x22]
             @ '' already exists. Do you want to overwrite it?'') w"
        consider (cancel) "fst ?ask = Some ''Cancel''"
          | (no) "fst ?ask \<noteq> Some ''Cancel''" "fst ?ask = Some ''No''"
          | (yes) "fst ?ask \<noteq> Some ''Cancel''" "fst ?ask \<noteq> Some ''No''"
          by blast
        then show ?thesis
        proof cases
          case cancel
          with head complete Some
          have "importLoop en (x # rest) w n k = Summary (snd ?ask) n k"
            by (auto simp: Let_def split: prod.splits)
          then show ?thesis
            using asked by simp
        next
          case no
          with head complete Some
          have "importLoop en (x # rest) w n k = importLoop en rest (snd ?ask) n (Suc k)"
            by (auto simp: Let_def split: prod.splits)
          with Cons.IH [OF asked] show ?thesis by simp
        next
          case yes
          with head complete Some
          have "importLoop en (x # rest) w n k
                  = importLoop en rest (importOne en e (removeCluster (cid existing) (snd ?ask)))
                      (Suc n) k"
            by (auto simp: Let_def split: prod.splits)
          with Cons.IH [OF import [OF remove [OF asked]]] show ?thesis by simp
        qed
      qed
    qed
  qed
qed

lemma importOne_clusters:
  "map_of (clusters (importOne en e w)) j = Some c \<Longrightarrow>
   map_of (clusters w) j = Some c \<or> (fst (generateClusterId en w) = j \<and> cid c = j)"
  by (auto simp: importOne_def generateClusterId_def addCluster_def saveClusterConfig_def
        prim_defs Let_def update_conv' split: if_splits)

lemma removeCluster_clusters:
  "map_of (clusters (removeCluster i w)) j = Some c \<Longrightarrow> map_of (clusters w) j = Some c"
  by (auto simp: removeCluster_def removeConnectedCluster_def prim_defs Let_def delete_conv'
        split: if_splits)

lemma importOne_credentials:
  "f \<noteq> Config \<Longrightarrow> secrets_get (importOne en e w) j f = secrets_get w j f"
  by (simp add: importOne_def generateClusterId_def addCluster_def saveClusterConfig_def
        prim_defs Let_def update_conv')

lemma removeCluster_credentials:
  "secrets_get (removeCluster i w) j f = Some v \<Longrightarrow> secrets_get w j f = Some v"
  by (auto simp: removeCluster_def removeConnectedCluster_def prim_defs Let_def delete_conv'
        split: if_splits)

text \<open>
  A profile that is in the profile table after the loop was there before or has an id
  that \<open>generateClusterId\<close> returned; the \<open>id\<close> properties of the document make no
  difference. The loop stores no credential field.
\<close>

lemma importLoop_ids:
  assumes "map_of (clusters (world_of (importLoop en es w n k))) j = Some c"
  shows "map_of (clusters w) j = Some c \<or> (\<exists>w0. fst (generateClusterId en w0) = j \<and> cid c = j)"
proof -
  let ?P = "\<lambda>x. \<forall>j c. map_of (clusters x) j = Some c \<longrightarrow>
              map_of (clusters w) j = Some c \<or> (\<exists>w0. fst (generateClusterId en w0) = j \<and> cid c = j)"
  have "?P (world_of (importLoop en es w n k))"
  proof (rule importLoop_preserves [where P = ?P])
    show "?P (emit ev x)" if "?P x" for x ev
      using that by (simp add: emit_fields)
    show "?P (tick x)" if "?P x" for x
      using that by (simp add: tick_fields)
    show "?P (removeCluster i x)" if "?P x" for x i
      using that removeCluster_clusters by blast
    show "?P (importOne en e x)" if "?P x" for x e
      using that importOne_clusters by blast
    show "?P w" by simp
  qed
  with assms show ?thesis by blast
qed

lemma importLoop_credentials:
  assumes "f \<noteq> Config" and "secrets_get (world_of (importLoop en es w n k)) j f = Some v"
  shows "secrets_get w j f = Some v"
proof -
  let ?P = "\<lambda>x. \<forall>j f v. f \<noteq> Config \<and> secrets_get x j f = Some v \<longrightarrow> secrets_get w j f = Some v"
  have "?P (world_of (importLoop en es w n k))"
  proof (rule importLoop_preserves [where P = ?P])
    show "?P (emit ev x)" if "?P x" for x ev
      using that by (simp add: emit_fields secrets_get_def)
    show "?P (tick x)" if "?P x" for x
      using that by (simp add: tick_fields secrets_get_def)
    show "?P (removeCluster i x)" if "?P x" for x i
      using that removeCluster_credentials by blast
    show "?P (importOne en e x)" if "?P x" for x e
      using that importOne_credentials [of _ en e x] by metis
    show "?P w" by simp
  qed
  with assms show ?thesis by blast
qed

lemma importLoop_ignores_id:
  "importLoop en (map (map_option (\<lambda>x. x\<lparr>e_id := None\<rparr>)) es) w n k = importLoop en es w n k"
proof (induction es arbitrary: w n k)
  case Nil
  then show ?case by simp
next
  case (Cons x rest)
  show ?case
  proof (cases x)
    case None
    then show ?thesis by simp
  next
    case (Some e)
    have same: "entry_complete (e\<lparr>e_id := None\<rparr>) = entry_complete e"
        "importOne en (e\<lparr>e_id := None\<rparr>) y = importOne en e y" for y
      by (simp_all add: entry_complete_def importOne_def)
    show ?thesis
      by (simp add: Some same Cons.IH Let_def split: option.splits prod.splits)
  qed
qed

text \<open>
  C8. An entry that lacks a required field is to be skipped and counted, and the import
  is to go on with the entries that follow. The loop does so for an entry that is an
  object; on an entry that is \<open>null\<close> the test of the required fields throws. Importing
  the array of the complete entry \<open>new\<close>, \<open>null\<close> and the complete entry \<open>late\<close> into
  the example state imports \<open>new\<close>, then shows \<open>Failed to import clusters\<close> and no
  summary; nothing is counted as skipped and \<open>late\<close> is not imported. With an object
  without properties in the place of \<open>null\<close> the same import skips that entry, imports
  \<open>late\<close> and reports two imported entries and one skipped.
\<close>

theorem importClusters_null_entry_aborts:
  "events_since example_world (importClusters (import_env null_document) example_world)
     = [TreeDataChanged, ConsoleLog ''[ESExt] Failed to import clusters'',
        ErrorMessage ''Failed to import clusters''] \<and>
   map (\<lambda>p. name (snd p)) (clusters (importClusters (import_env null_document) example_world))
     = [''a'', ''b'', ''c'', ''new''] \<and>
   events_since example_world (importClusters (import_env sparse_document) example_world)
     = [TreeDataChanged, ConsoleLog ''[ESExt] Skipping invalid cluster'', TreeDataChanged,
        InformationMessage (importMessage 2 1)] \<and>
   map (\<lambda>p. name (snd p)) (clusters (importClusters (import_env sparse_document) example_world))
     = [''a'', ''b'', ''c'', ''new'', ''late'']"
proof -
  have aborted: "importClusters (import_env null_document) example_world
      = importFailed (importOne (import_env null_document) (import_entry (Some ''new''))
          (tick example_world))"
    by (simp add: importClusters_def import_env_def null_document_def example_env_def Let_def
          entry_complete_def import_entry_def truthy_def str_of_def example_world_def
          example_config_def tick_def)
  have finished: "importClusters (import_env sparse_document) example_world
      = emit (InformationMessage (importMessage 2 1))
          (importOne (import_env sparse_document) (import_entry (Some ''late''))
            (emit (ConsoleLog ''[ESExt] Skipping invalid cluster'')
              (importOne (import_env sparse_document) (import_entry (Some ''new''))
                (tick example_world))))"
    by (simp add: importClusters_def import_env_def sparse_document_def example_env_def Let_def
          entry_complete_def import_entry_def empty_entry_def truthy_def str_of_def
          example_world_def example_config_def tick_def emit_def importOne_def
          generateClusterId_def addCluster_def saveClusterConfig_def refresh_def
          secrets_store_def numeral_2_eq_2)
  show ?thesis
    unfolding aborted finished
    by (simp add: importFailed_def importOne_def generateClusterId_def addCluster_def
          saveClusterConfig_def prim_defs Let_def truthy_def str_of_def import_entry_def
          import_env_def example_defs show_nat.simps digit_char_def)
qed

text \<open>
  The generated id is made of the time and a random string. When both are the same for
  two entries, the second import overwrites the first: two entries are reported as
  imported and the profile table has one new profile.
\<close>

lemma importClusters_same_id:
  "last (trace (importClusters (frozen_env [Some (import_entry (Some ''new'')),
                                            Some (import_entry (Some ''late''))]) example_world))
     = InformationMessage (importMessage 2 0) \<and>
   map (\<lambda>p. name (snd p))
     (clusters (importClusters (frozen_env [Some (import_entry (Some ''new'')),
                                            Some (import_entry (Some ''late''))]) example_world))
     = [''a'', ''b'', ''c'', ''late'']"
  by (simp add: importClusters_def frozen_env_def import_env_def Let_def entry_complete_def
        import_entry_def truthy_def str_of_def importOne_def generateClusterId_def
        addCluster_def saveClusterConfig_def prim_defs example_defs numeral_2_eq_2)

end
